theory Spec2Isabelle
  imports Main
begin

section \<open>Strings of the runtime\<close>

text \<open>
  A JavaScript string is a sequence of UTF-16 code units. A \<^typ>\<open>char\<close> stands for a code
  unit below 256 (its code is \<^term>\<open>of_char c :: nat\<close>), so \<^term>\<open>length s\<close> is the
  \<^verbatim>\<open>.length\<close> of the string. Code units from 256 on are outside this type.

  The white space of the language (the class \<^verbatim>\<open>\s\<close> of regular expressions, what
  \<^verbatim>\<open>String.prototype.trim\<close> removes and what \<^verbatim>\<open>parseInt\<close> skips) is, below 256:
  TAB, LF, VT, FF, CR, SPACE and NO-BREAK SPACE.
\<close>

definition js_space :: "char \<Rightarrow> bool" where
  "js_space c = (of_char c \<in> {9, 10, 11, 12, 13, 32, 160 :: nat})"

text \<open>\<^verbatim>\<open>s.trim()\<close>: white space removed at both ends.\<close>

definition trim :: "string \<Rightarrow> string" where
  "trim s = rev (dropWhile js_space (rev (dropWhile js_space s)))"

text \<open>
  \<^verbatim>\<open>s.replace(/\s+/g, '-')\<close>: every maximal run of white space becomes one hyphen.
\<close>

function replace_spaces :: "string \<Rightarrow> string" where
  "replace_spaces [] = []"
| "replace_spaces (c # cs) =
     (if js_space c then CHR ''-'' # replace_spaces (dropWhile js_space cs)
      else c # replace_spaces cs)"
  by pat_completeness auto
termination
  by (relation "measure length") (auto simp: less_Suc_eq_le length_dropWhile_le)

text \<open>
  The decimal rendering of an integer, as a template literal \<^verbatim>\<open>`${n}`\<close> produces it for
  an integral number of magnitude below \<open>10\<^sup>2\<^sup>1\<close>.
\<close>

definition digit_char :: "nat \<Rightarrow> char" where
  "digit_char d = ''0123456789'' ! d"

fun decimal :: "nat \<Rightarrow> string" where
  "decimal n = (if n < 10 then [digit_char n] else decimal (n div 10) @ [digit_char (n mod 10)])"

declare decimal.simps [simp del]

definition number_to_string :: "int \<Rightarrow> string" where
  "number_to_string i = (if i < 0 then CHR ''-'' # decimal (nat (- i)) else decimal (nat i))"

text \<open>
  \<^verbatim>\<open>parseInt(s, 10)\<close>: skip leading white space, read an optional sign, then the longest
  run of decimal digits; no digit there gives \<^verbatim>\<open>NaN\<close> (\<^term>\<open>None\<close>). What follows the
  digits is ignored. The value is kept exact; the runtime rounds a value beyond \<open>2\<^sup>5\<^sup>3\<close>
  to the nearest double, which changes neither its sign nor whether it is zero.
\<close>

definition is_digit :: "char \<Rightarrow> bool" where
  "is_digit c = (48 \<le> (of_char c :: nat) \<and> (of_char c :: nat) \<le> 57)"

definition digit_value :: "char \<Rightarrow> nat" where
  "digit_value c = of_char c - 48"

definition digits_value :: "string \<Rightarrow> nat" where
  "digits_value ds = foldl (\<lambda>a c. 10 * a + digit_value c) 0 ds"

definition parseInt :: "string \<Rightarrow> int option" where
  "parseInt s =
     (let s1 = dropWhile js_space s;
          neg = (case s1 of [] \<Rightarrow> False | c # _ \<Rightarrow> c = CHR ''-'');
          s2 = (case s1 of [] \<Rightarrow> [] | c # r \<Rightarrow> if c = CHR ''-'' \<or> c = CHR ''+'' then r else s1);
          ds = takeWhile is_digit s2
      in if ds = [] then None
         else Some (if neg then - int (digits_value ds) else int (digits_value ds)))"

section \<open>Resume storage\<close>

text \<open>
  \<^verbatim>\<open>multer.diskStorage\<close> in \<^verbatim>\<open>server.js\<close>: the file goes to the upload directory under
  the name \<^verbatim>\<open>`${Date.now()}-${safeName}`\<close>, where \<^verbatim>\<open>safeName\<close> is the original name
  with its white space runs replaced. \<open>now\<close> is the value of \<^verbatim>\<open>Date.now()\<close>.
\<close>

definition storage_filename :: "int \<Rightarrow> string \<Rightarrow> string" where
  "storage_filename now originalname =
     (let safeName = replace_spaces originalname
      in number_to_string now @ ''-'' @ safeName)"

section \<open>Values, errors and responses\<close>

text \<open>
  The JSON values the handlers send back. An object is the list of its entries in the
  order the source writes them.
\<close>

datatype json = JNum int | JStr string | JObj "(string \<times> json) list"

record response =
  status :: nat
  body :: json

text \<open>\<^verbatim>\<open>res.status(n).json({ error: msg })\<close>\<close>

definition error_response :: "nat \<Rightarrow> string \<Rightarrow> response" where
  "error_response n msg = \<lparr>status = n, body = JObj [(''error'', JStr msg)]\<rparr>"

text \<open>
  An error object thrown by the database driver, the file system or the runtime, with the
  properties the source reads: \<^verbatim>\<open>code\<close>, \<^verbatim>\<open>message\<close> and \<^verbatim>\<open>sqlMessage\<close>. None of
  these errors carries a \<^verbatim>\<open>status\<close>. The \<^verbatim>\<open>stack\<close> text is not modelled.
\<close>

record js_error =
  code :: "string option"
  message :: string
  sqlMessage :: "string option"

text \<open>
  The error-handling middleware at the end of \<^verbatim>\<open>server.js\<close>. As no modelled error has a
  \<^verbatim>\<open>status\<close>, \<^verbatim>\<open>err.status || 500\<close> is 500. Outside production the body has a second
  entry, the stack, which is left out here.
\<close>

definition error_handler :: "bool \<Rightarrow> js_error \<Rightarrow> response" where
  "error_handler production err =
     (let errorMessage =
            (if production then ''Internal server error''
             else if message err = [] then ''Internal server error'' else message err)
      in \<lparr>status = 500, body = JObj [(''error'', JStr errorMessage)]\<rparr>)"

text \<open>
  Truthiness of the values the handlers test with \<^verbatim>\<open>!x\<close>: a body field is a string or
  \<^verbatim>\<open>undefined\<close> (a field of another JSON type is outside the model), an identifier in the
  session is a number or \<^verbatim>\<open>undefined\<close>.
\<close>

definition falsy :: "string option \<Rightarrow> bool" where
  "falsy v = (case v of None \<Rightarrow> True | Some s \<Rightarrow> s = [])"

definition falsy_number :: "int option \<Rightarrow> bool" where
  "falsy_number v = (case v of None \<Rightarrow> True | Some n \<Rightarrow> n = 0)"

section \<open>The store, the upload directory and the request\<close>

record user_row =
  u_id :: int
  u_email :: string
  u_password_hash :: string
  u_name :: string
  u_role :: string
  u_created_at :: int

record job_row =
  j_id :: int
  j_title :: string
  j_company :: string
  j_description :: string
  j_deadline :: int
  j_created_at :: int

record application_row =
  a_id :: int
  a_job_id :: int
  a_user_id :: "int option"
  a_name :: string
  a_email :: string
  a_phone :: string
  a_cover_letter :: string
  a_resume_path :: string
  a_submitted_at :: int

text \<open>
  The schema as the bootstrap of \<^verbatim>\<open>db.js\<close> sees it: per table, its columns (name and
  definition text) and its foreign keys.
\<close>

record foreign_key =
  fk_name :: string
  fk_column :: string
  fk_ref_table :: string
  fk_ref_column :: string
  fk_on_delete :: string

record table_def =
  columns :: "(string \<times> string) list"
  foreign_keys :: "foreign_key list"

type_synonym schema = "(string \<times> table_def) list"

text \<open>
  Everything outside the process that the code reads or changes. Times are milliseconds
  since the epoch; \<open>j_deadline\<close> is the instant of the \<^verbatim>\<open>Date\<close> the driver returns for the
  column. \<open>clock\<close> is the engine's \<^verbatim>\<open>CURRENT_TIMESTAMP\<close>, the \<open>next_id\<close> fields are the
  \<^verbatim>\<open>AUTO_INCREMENT\<close> counters. \<open>files\<close> holds the paths present in the upload
  directory. \<open>faults\<close> lists, for the coming calls of \<^verbatim>\<open>pool.query\<close> in order, the error
  with which the call fails for a reason that lies outside the statement and the store
  (the connection is lost, the server is down, ...), or \<^term>\<open>None\<close> when the statement
  reaches the engine; past the end of the list every statement reaches the engine. What
  the engine then does with the statement, refusals included, is part of the model of the
  statement. \<open>production\<close> is \<^verbatim>\<open>process.env.NODE_ENV === 'production'\<close>.
\<close>

record world =
  db_schema :: schema
  users :: "user_row list"
  users_next_id :: int
  jobs :: "job_row list"
  jobs_next_id :: int
  applications :: "application_row list"
  applications_next_id :: int
  clock :: int
  files :: "string set"
  faults :: "js_error option list"
  production :: bool

text \<open>
  \<^verbatim>\<open>await pool.query(...)\<close>: the statement is given by what the engine does with it.
  The call either throws the next pending fault or runs the statement.
\<close>

definition pool_query ::
  "(world \<Rightarrow> (js_error + 'r) \<times> world) \<Rightarrow> world \<Rightarrow> (js_error + 'r) \<times> world" where
  "pool_query stmt w =
     (case faults w of
        [] \<Rightarrow> stmt w
      | None # fs \<Rightarrow> stmt (w\<lparr>faults := fs\<rparr>)
      | Some err # fs \<Rightarrow> (Inl err, w\<lparr>faults := fs\<rparr>))"

text \<open>
  The engine is MySQL 8 (the README's prerequisite) in its default strict mode, and the
  tables are the ones \<^verbatim>\<open>db.js\<close> declares. An \<^verbatim>\<open>INSERT\<close> is refused with an error when a
  value does not fit its column: a \<^verbatim>\<open>VARCHAR(n)\<close> takes at most \<open>n\<close> characters, a \<^verbatim>\<open>TEXT\<close>
  at most 65535 bytes of UTF-8 (one byte for a character below 128, two for the others of
  this model), an \<^verbatim>\<open>ENUM\<close> one of its members, a \<^verbatim>\<open>UNIQUE\<close> column no value that is
  there already, and a foreign key the identifier of an existing row. A refused
  \<^verbatim>\<open>INSERT\<close> leaves the rows as they are (what it does to the counter is not modelled).
\<close>

definition quoted :: "string \<Rightarrow> string" where
  "quoted s = [CHR 0x27] @ s @ [CHR 0x27]"

definition mysql_error :: "string \<Rightarrow> string \<Rightarrow> js_error" where
  "mysql_error c m = \<lparr>code = Some c, message = m, sqlMessage = Some m\<rparr>"

definition varchar_fits :: "nat \<Rightarrow> string \<Rightarrow> bool" where
  "varchar_fits n s = (length s \<le> n)"

definition utf8_length :: "string \<Rightarrow> nat" where
  "utf8_length s = sum_list (map (\<lambda>c. if (of_char c :: nat) < 128 then 1 else 2) s)"

definition text_fits :: "string \<Rightarrow> bool" where
  "text_fits s = (utf8_length s \<le> 65535)"

definition data_too_long :: "string \<Rightarrow> js_error" where
  "data_too_long col =
     mysql_error ''ER_DATA_TOO_LONG''
       (''Data too long for column '' @ quoted col @ '' at row 1'')"

definition dup_entry :: "string \<Rightarrow> string \<Rightarrow> js_error" where
  "dup_entry v k =
     mysql_error ''ER_DUP_ENTRY'' (''Duplicate entry '' @ quoted v @ '' for key '' @ quoted k)"

definition no_referenced_row :: "string \<Rightarrow> js_error" where
  "no_referenced_row fk =
     mysql_error ''ER_NO_REFERENCED_ROW_2''
       (''Cannot add or update a child row: a foreign key constraint fails ('' @ fk @ '')'')"

record session =
  userId :: "int option"
  userRole :: "string option"

text \<open>\<^verbatim>\<open>req.file\<close> as multer sets it.\<close>

record upload =
  originalname :: string
  filename :: string
  path :: string

text \<open>
  The request object: \<^verbatim>\<open>req.params.id\<close>, \<^verbatim>\<open>req.session\<close>, \<^verbatim>\<open>req.body\<close> (field name to
  value) and \<^verbatim>\<open>req.file\<close>.
\<close>

record request =
  params_id :: string
  req_session :: session
  req_body :: "string \<Rightarrow> string option"
  req_file :: "upload option"

section \<open>Session guard\<close>

text \<open>What a middleware does: call \<^verbatim>\<open>next()\<close>, answer, or call \<^verbatim>\<open>next(err)\<close>.\<close>

datatype middleware_result = Next | Responded response | Failed js_error

definition requireAuth :: "request \<Rightarrow> middleware_result" where
  "requireAuth req =
     (if falsy_number (userId (req_session req))
      then Responded (error_response 401 ''Authentication required'')
      else Next)"

text \<open>
  \<^verbatim>\<open>SELECT ... FROM users WHERE id = ?\<close> and \<^verbatim>\<open>... WHERE email = ?\<close>. How two emails
  compare is the engine's business (its collation); here they are equal when they are the
  same string.
\<close>

definition select_users_by_id :: "int \<Rightarrow> world \<Rightarrow> (js_error + user_row list) \<times> world" where
  "select_users_by_id i w = (Inr (filter (\<lambda>u. u_id u = i) (users w)), w)"

definition select_users_by_email ::
  "string \<Rightarrow> world \<Rightarrow> (js_error + user_row list) \<times> world" where
  "select_users_by_email e w = (Inr (filter (\<lambda>u. u_email u = e) (users w)), w)"

definition requireAdmin :: "request \<Rightarrow> world \<Rightarrow> middleware_result \<times> world" where
  "requireAdmin req w =
     (if falsy_number (userId (req_session req))
      then (Responded (error_response 401 ''Authentication required''), w)
      else
        (case pool_query (select_users_by_id (the (userId (req_session req)))) w of
           (Inl err, w1) \<Rightarrow> (Failed err, w1)
         | (Inr rows, w1) \<Rightarrow>
             (case rows of
                [] \<Rightarrow> (Responded (error_response 403 ''Admin access required''), w1)
              | u # _ \<Rightarrow>
                  if u_role u \<noteq> ''admin''
                  then (Responded (error_response 403 ''Admin access required''), w1)
                  else (Next, w1))))"

section \<open>Credential store\<close>

text \<open>
  \<^verbatim>\<open>INSERT INTO users (email, password_hash, name, role) VALUES (?, ?, ?, ?)\<close>; the result
  is \<^verbatim>\<open>insertId\<close>.
\<close>

definition insert_user ::
  "string \<Rightarrow> string \<Rightarrow> string \<Rightarrow> string \<Rightarrow> world \<Rightarrow> (js_error + int) \<times> world" where
  "insert_user e h n r w =
     (if \<not> varchar_fits 255 e then (Inl (data_too_long ''email''), w)
      else if \<not> varchar_fits 255 h then (Inl (data_too_long ''password_hash''), w)
      else if \<not> varchar_fits 255 n then (Inl (data_too_long ''name''), w)
      else if r \<noteq> ''user'' \<and> r \<noteq> ''admin''
      then (Inl (mysql_error ''WARN_DATA_TRUNCATED''
                   (''Data truncated for column '' @ quoted ''role'' @ '' at row 1'')), w)
      else if e \<in> set (map u_email (users w)) then (Inl (dup_entry e ''users.email''), w)
      else
        (Inr (users_next_id w),
         w\<lparr>users := users w @
                [\<lparr>u_id = users_next_id w, u_email = e, u_password_hash = h, u_name = n,
                  u_role = r, u_created_at = clock w\<rparr>],
           users_next_id := users_next_id w + 1\<rparr>))"

text \<open>The object with the public columns of a user row.\<close>

definition public_user :: "user_row \<Rightarrow> json" where
  "public_user u =
     JObj [(''id'', JNum (u_id u)), (''email'', JStr (u_email u)),
           (''name'', JStr (u_name u)), (''role'', JStr (u_role u))]"


text \<open>
  \<^verbatim>\<open>POST /api/auth/login\<close>. \<open>bcrypt_compare\<close> is \<^verbatim>\<open>bcrypt.compare\<close>.
\<close>

definition login ::
  "(string \<Rightarrow> string \<Rightarrow> bool) \<Rightarrow> request \<Rightarrow> world \<Rightarrow> response \<times> session option \<times> world"
  where
  "login bcrypt_compare req w =
     (let email = req_body req ''email'';
          password = req_body req ''password''
      in if falsy email \<or> falsy password
         then (error_response 400 ''Email and password required'', Some (req_session req), w)
         else
           (case pool_query (select_users_by_email (the email)) w of
              (Inl err, w1) \<Rightarrow> (error_handler (production w1) err, Some (req_session req), w1)
            | (Inr rows, w1) \<Rightarrow>
                (case rows of
                   [] \<Rightarrow> (error_response 401 ''Invalid email or password'',
                          Some (req_session req), w1)
                 | user # _ \<Rightarrow>
                     (let isValid = bcrypt_compare (the password) (u_password_hash user)
                      in if \<not> isValid
                         then (error_response 401 ''Invalid email or password'',
                               Some (req_session req), w1)
                         else
                           (\<lparr>status = 200,
                             body = JObj [(''message'', JStr ''Login successful''),
                                          (''user'', public_user user)]\<rparr>,
                            Some ((req_session req)
                                    \<lparr>userId := Some (u_id user),
                                     userRole := Some (u_role user)\<rparr>),
                            w1)))))"

text \<open>
  \<^verbatim>\<open>GET /api/auth/me\<close>. The query selects \<^verbatim>\<open>id, email, name, role\<close>, so the row object
  sent back has these four entries. A destroyed session is \<^term>\<open>None\<close>.
\<close>

definition me :: "request \<Rightarrow> world \<Rightarrow> response \<times> session option \<times> world" where
  "me req w =
     (if falsy_number (userId (req_session req))
      then (error_response 401 ''Not authenticated'', Some (req_session req), w)
      else
        (case pool_query (select_users_by_id (the (userId (req_session req)))) w of
           (Inl err, w1) \<Rightarrow> (error_handler (production w1) err, Some (req_session req), w1)
         | (Inr rows, w1) \<Rightarrow>
             (case rows of
                [] \<Rightarrow> (error_response 401 ''User not found'', None, w1)
              | u # _ \<Rightarrow>
                  (\<lparr>status = 200, body = JObj [(''user'', public_user u)]\<rparr>,
                   Some (req_session req), w1))))"

section \<open>Job catalog\<close>

text \<open>
  What the handlers take from the runtime and the driver for dates: \<open>date_parse\<close> is
  \<^verbatim>\<open>new Date(value).getTime()\<close> with \<^term>\<open>None\<close> for \<^verbatim>\<open>NaN\<close>, \<open>to_iso\<close> is
  \<^verbatim>\<open>toISOString\<close> (also what \<^verbatim>\<open>res.json\<close> writes for a \<^verbatim>\<open>Date\<close>), and \<open>read_datetime\<close> is
  the instant of the \<^verbatim>\<open>Date\<close> the driver returns for a \<^verbatim>\<open>DATETIME\<close> column into which the
  given text was inserted, \<^term>\<open>None\<close> when the engine does not take the text for a
  \<^verbatim>\<open>DATETIME\<close>.
\<close>

record runtime =
  date_parse :: "string \<Rightarrow> int option"
  to_iso :: "int \<Rightarrow> string"
  read_datetime :: "string \<Rightarrow> int option"

text \<open>
  The argument of \<^verbatim>\<open>new Date(value)\<close> in the source is a string of the request or a
  number of milliseconds; the result is the instant of the date, \<^term>\<open>None\<close> for an
  invalid date. (A number is taken to be within the range of dates.)
\<close>

datatype date_arg = Millis int | Text string

definition new_Date :: "runtime \<Rightarrow> date_arg \<Rightarrow> int option" where
  "new_Date rt v = (case v of Millis n \<Rightarrow> Some n | Text s \<Rightarrow> date_parse rt s)"

definition isValidDate :: "runtime \<Rightarrow> date_arg \<Rightarrow> bool" where
  "isValidDate rt v = (let d = new_Date rt v in d \<noteq> None)"

text \<open>\<^verbatim>\<open>s.replace('T', ' ')\<close>: the first \<^verbatim>\<open>T\<close> only.\<close>

fun replace_first_T :: "string \<Rightarrow> string" where
  "replace_first_T [] = []"
| "replace_first_T (c # cs) = (if c = CHR ''T'' then CHR '' '' # cs else c # replace_first_T cs)"

text \<open>
  \<^verbatim>\<open>toMySqlDateTime\<close>, called on valid dates only; on an invalid one \<^verbatim>\<open>toISOString\<close>
  throws.
\<close>

definition toMySqlDateTime :: "runtime \<Rightarrow> date_arg \<Rightarrow> string" where
  "toMySqlDateTime rt v =
     (let d = the (new_Date rt v) in replace_first_T (take 19 (to_iso rt d)))"

definition formatJob :: "runtime \<Rightarrow> job_row \<Rightarrow> json" where
  "formatJob rt row =
     JObj [(''id'', JNum (j_id row)), (''title'', JStr (j_title row)),
           (''company'', JStr (j_company row)), (''description'', JStr (j_description row)),
           (''deadline'', JStr (to_iso rt (j_deadline row))),
           (''createdAt'', JStr (to_iso rt (j_created_at row)))]"

text \<open>\<^verbatim>\<open>SELECT ... FROM jobs WHERE id = ?\<close>\<close>

definition select_jobs_by_id :: "int \<Rightarrow> world \<Rightarrow> (js_error + job_row list) \<times> world" where
  "select_jobs_by_id i w = (Inr (filter (\<lambda>j. j_id j = i) (jobs w)), w)"

text \<open>
  \<^verbatim>\<open>INSERT INTO jobs (title, company, description, deadline) VALUES (?, ?, ?, ?)\<close>; the
  result is \<^verbatim>\<open>insertId\<close>.
\<close>

definition insert_job ::
  "runtime \<Rightarrow> string \<Rightarrow> string \<Rightarrow> string \<Rightarrow> string \<Rightarrow> world \<Rightarrow> (js_error + int) \<times> world" where
  "insert_job rt t c d dl w =
     (if \<not> varchar_fits 255 t then (Inl (data_too_long ''title''), w)
      else if \<not> varchar_fits 255 c then (Inl (data_too_long ''company''), w)
      else if \<not> text_fits d then (Inl (data_too_long ''description''), w)
      else
        (case read_datetime rt dl of
           None \<Rightarrow>
             (Inl (mysql_error ''ER_TRUNCATED_WRONG_VALUE''
                     (''Incorrect datetime value: '' @ quoted dl @ '' for column ''
                        @ quoted ''deadline'' @ '' at row 1'')), w)
         | Some instant \<Rightarrow>
             (Inr (jobs_next_id w),
              w\<lparr>jobs := jobs w @
                     [\<lparr>j_id = jobs_next_id w, j_title = t, j_company = c, j_description = d,
                       j_deadline = instant, j_created_at = clock w\<rparr>],
                jobs_next_id := jobs_next_id w + 1\<rparr>)))"

text \<open>The handler of \<^verbatim>\<open>POST /api/jobs\<close>, behind \<^verbatim>\<open>requireAdmin\<close>.\<close>

definition create_job :: "runtime \<Rightarrow> request \<Rightarrow> world \<Rightarrow> response \<times> world" where
  "create_job rt req w =
     (let title = req_body req ''title'';
          company = req_body req ''company'';
          description = req_body req ''description'';
          deadline = req_body req ''deadline''
      in if falsy title \<or> falsy company \<or> falsy description \<or> falsy deadline
         then (error_response 400 ''Missing required fields'', w)
         else
           (let trimmedTitle = trim (the title);
                trimmedCompany = trim (the company);
                trimmedDescription = trim (the description)
            in if trimmedTitle = [] \<or> trimmedCompany = [] \<or> trimmedDescription = []
               then (error_response 400 ''Fields cannot be empty'', w)
               else if \<not> isValidDate rt (Text (the deadline))
               then (error_response 400 ''Invalid deadline format'', w)
               else
                 (let deadlineVal = toMySqlDateTime rt (Text (the deadline))
                  in case pool_query
                            (insert_job rt trimmedTitle trimmedCompany trimmedDescription
                               deadlineVal) w of
                       (Inl err, w1) \<Rightarrow> (error_handler (production w1) err, w1)
                     | (Inr insertId, w1) \<Rightarrow>
                         (case pool_query (select_jobs_by_id insertId) w1 of
                            (Inl err, w2) \<Rightarrow> (error_handler (production w2) err, w2)
                          | (Inr rows, w2) \<Rightarrow>
                              (case rows of
                                 [] \<Rightarrow>
                                   (error_response 500 ''Failed to retrieve created job'', w2)
                               | row # _ \<Rightarrow>
                                   (\<lparr>status = 201, body = formatJob rt row\<rparr>, w2))))))"

definition create_job_route :: "runtime \<Rightarrow> request \<Rightarrow> world \<Rightarrow> response \<times> world" where
  "create_job_route rt req w =
     (case requireAdmin req w of
        (Responded res, w1) \<Rightarrow> (res, w1)
      | (Failed err, w1) \<Rightarrow> (error_handler (production w1) err, w1)
      | (Next, w1) \<Rightarrow> create_job rt req w1)"

section \<open>Application intake\<close>

text \<open>
  \<^verbatim>\<open>upload.single('resume')\<close>: when the form has a \<^verbatim>\<open>resume\<close> part (given by its original
  name), multer writes it into the upload directory under \<^const>\<open>storage_filename\<close> and
  sets \<^verbatim>\<open>req.file\<close>. \<open>t\<close> is \<^verbatim>\<open>Date.now()\<close> at that moment. The stored name has no
  separator and is neither \<^verbatim>\<open>.\<close> nor \<^verbatim>\<open>..\<close>, so \<^verbatim>\<open>path.join\<close> only puts the directory
  in front of it.
\<close>

definition uploadDir :: string where
  "uploadDir = ''uploads''"

definition upload_single :: "int \<Rightarrow> string option \<Rightarrow> request \<Rightarrow> world \<Rightarrow> request \<times> world" where
  "upload_single t part req w =
     (case part of
        None \<Rightarrow> (req\<lparr>req_file := None\<rparr>, w)
      | Some name \<Rightarrow>
          (let fn = storage_filename t name;
               p = uploadDir @ ''/'' @ fn
           in (req\<lparr>req_file := Some \<lparr>originalname = name, filename = fn, path = p\<rparr>\<rparr>,
               w\<lparr>files := insert p (files w)\<rparr>)))"

text \<open>\<^verbatim>\<open>fs.unlinkSync(p)\<close> throws when there is no such file.\<close>

definition unlinkSync :: "string \<Rightarrow> world \<Rightarrow> (js_error + unit) \<times> world" where
  "unlinkSync p w =
     (if p \<in> files w then (Inr (), w\<lparr>files := files w - {p}\<rparr>)
      else (Inl \<lparr>code = Some ''ENOENT'',
                 message = ''ENOENT: no such file or directory, unlink '' @ [CHR 0x27] @ p @ [CHR 0x27],
                 sqlMessage = None\<rparr>, w))"

text \<open>\<^verbatim>\<open>if (req.file) fs.unlinkSync(req.file.path);\<close>\<close>

definition unlink_req_file :: "request \<Rightarrow> world \<Rightarrow> (js_error + unit) \<times> world" where
  "unlink_req_file req w =
     (case req_file req of None \<Rightarrow> (Inr (), w) | Some f \<Rightarrow> unlinkSync (path f) w)"

text \<open>
  \<^verbatim>\<open>if (req.file) fs.unlinkSync(req.file.path); return res.status(n).json({ error: msg });\<close>
\<close>

definition unlink_and_reject ::
  "request \<Rightarrow> nat \<Rightarrow> string \<Rightarrow> world \<Rightarrow> (js_error + response) \<times> world" where
  "unlink_and_reject req n msg w =
     (case unlink_req_file req w of
        (Inl err, w1) \<Rightarrow> (Inl err, w1)
      | (Inr _, w1) \<Rightarrow> (Inr (error_response n msg), w1))"

text \<open>
  \<^verbatim>\<open>INSERT INTO applications (job_id, user_id, name, email, phone, cover_letter,
  resume_path) VALUES (?, ?, ?, ?, ?, ?, ?)\<close>
\<close>

definition insert_application ::
  "int \<Rightarrow> int \<Rightarrow> string \<Rightarrow> string \<Rightarrow> string \<Rightarrow> string \<Rightarrow> string \<Rightarrow> world
     \<Rightarrow> (js_error + int) \<times> world" where
  "insert_application jobId uid n e ph cl rp w =
     (if \<not> varchar_fits 255 n then (Inl (data_too_long ''name''), w)
      else if \<not> varchar_fits 255 e then (Inl (data_too_long ''email''), w)
      else if \<not> varchar_fits 50 ph then (Inl (data_too_long ''phone''), w)
      else if \<not> text_fits cl then (Inl (data_too_long ''cover_letter''), w)
      else if \<not> varchar_fits 255 rp then (Inl (data_too_long ''resume_path''), w)
      else if jobId \<notin> set (map j_id (jobs w)) then (Inl (no_referenced_row ''fk_job''), w)
      else if uid \<notin> set (map u_id (users w)) then (Inl (no_referenced_row ''fk_user''), w)
      else
        (Inr (applications_next_id w),
         w\<lparr>applications := applications w @
                [\<lparr>a_id = applications_next_id w, a_job_id = jobId, a_user_id = Some uid,
                  a_name = n, a_email = e, a_phone = ph, a_cover_letter = cl,
                  a_resume_path = rp, a_submitted_at = clock w\<rparr>],
           applications_next_id := applications_next_id w + 1\<rparr>))"

text \<open>
  The \<^verbatim>\<open>try\<close> block of \<^verbatim>\<open>POST /api/jobs/:id/apply\<close>: \<^term>\<open>Inl\<close> is a throw, \<^term>\<open>Inr\<close>
  the response sent. \<open>now\<close> is the instant of \<^verbatim>\<open>new Date()\<close>.
\<close>

definition apply_try :: "int \<Rightarrow> request \<Rightarrow> world \<Rightarrow> (js_error + response) \<times> world" where
  "apply_try now req w =
     (let jobId = parseInt (params_id req);
          userId = userId (req_session req)
      in if falsy_number jobId
         then unlink_and_reject req 400 ''Invalid job ID'' w
         else if falsy_number userId
         then unlink_and_reject req 401 ''User session not found'' w
         else
           (case pool_query (select_jobs_by_id (the jobId)) w of
              (Inl err, w1) \<Rightarrow> (Inl err, w1)
            | (Inr rows, w1) \<Rightarrow>
                (case rows of
                   [] \<Rightarrow> unlink_and_reject req 404 ''Job not found'' w1
                 | job # _ \<Rightarrow>
                     (let deadline = j_deadline job
                      in if deadline < now
                         then unlink_and_reject req 400 ''Application deadline has passed'' w1
                         else
                           (let name = req_body req ''name'';
                                email = req_body req ''email'';
                                phone = req_body req ''phone'';
                                coverLetter = req_body req ''coverLetter''
                            in if falsy name \<or> falsy email \<or> falsy phone \<or> falsy coverLetter
                               then unlink_and_reject req 400 ''Missing required fields'' w1
                               else
                                 (case req_file req of
                                    None \<Rightarrow>
                                      (Inr (error_response 400 ''Resume file is required''), w1)
                                  | Some f \<Rightarrow>
                                      (case pool_query
                                              (insert_application (the jobId) (the userId)
                                                 (trim (the name)) (trim (the email))
                                                 (trim (the phone)) (trim (the coverLetter))
                                                 (filename f)) w1 of
                                         (Inl err, w2) \<Rightarrow> (Inl err, w2)
                                       | (Inr _, w2) \<Rightarrow>
                                           (Inr \<lparr>status = 201,
                                                 body = JObj [(''message'',
                                                         JStr ''Application submitted successfully'')]\<rparr>,
                                            w2))))))))"

text \<open>
  The \<^verbatim>\<open>catch\<close> block: the upload is removed, a failure of that removal is only logged,
  and the error goes to the error handler.
\<close>

definition apply_catch :: "request \<Rightarrow> js_error \<Rightarrow> world \<Rightarrow> response \<times> world" where
  "apply_catch req err w =
     (let w1 = (case req_file req of
                  None \<Rightarrow> w
                | Some f \<Rightarrow> snd (unlinkSync (path f) w))
      in (error_handler (production w1) err, w1))"

definition apply_handler :: "int \<Rightarrow> request \<Rightarrow> world \<Rightarrow> response \<times> world" where
  "apply_handler now req w =
     (case apply_try now req w of
        (Inr res, w1) \<Rightarrow> (res, w1)
      | (Inl err, w1) \<Rightarrow> apply_catch req err w1)"

text \<open>
  The route: \<^verbatim>\<open>requireAuth\<close>, then \<^verbatim>\<open>upload.single('resume')\<close>, then the handler.
\<close>

definition apply_route ::
  "int \<Rightarrow> int \<Rightarrow> string option \<Rightarrow> request \<Rightarrow> world \<Rightarrow> response \<times> world" where
  "apply_route t now part req w =
     (case requireAuth req of
        Responded res \<Rightarrow> (res, w)
      | Failed err \<Rightarrow> (error_handler (production w) err, w)
      | Next \<Rightarrow>
          (case upload_single t part req w of
             (req1, w1) \<Rightarrow> apply_handler now req1 w1))"

section \<open>Schema bootstrap\<close>

text \<open>
  The part of the engine in the bootstrap is fixed here, statement by statement, with the
  error it reports in each case. A pattern of
  \<^verbatim>\<open>LIKE\<close> matches \<^verbatim>\<open>%\<close> with any text and \<^verbatim>\<open>_\<close> with any one character; names are compared
  as written.
\<close>

fun sql_like :: "string \<Rightarrow> string \<Rightarrow> bool" where
  "sql_like [] s = (s = [])"
| "sql_like (p # ps) [] = (p = CHR ''%'' \<and> sql_like ps [])"
| "sql_like (p # ps) (c # cs) =
     (if p = CHR ''%'' then sql_like ps (c # cs) \<or> sql_like (p # ps) cs
      else (p = CHR ''_'' \<or> p = c) \<and> sql_like ps cs)"

definition fk_names :: "schema \<Rightarrow> string list" where
  "fk_names sch = concat (map (\<lambda>(n, t). map fk_name (foreign_keys t)) sch)"

definition no_such_table :: "string \<Rightarrow> js_error" where
  "no_such_table tbl =
     mysql_error ''ER_NO_SUCH_TABLE'' (''Table '' @ quoted tbl @ '' doesn't exist'')"

definition fk_dup_name :: "string \<Rightarrow> js_error" where
  "fk_dup_name n =
     mysql_error ''ER_FK_DUP_NAME'' (''Duplicate foreign key constraint name '' @ quoted n)"

definition fk_cannot_open_parent :: "string \<Rightarrow> js_error" where
  "fk_cannot_open_parent tbl =
     mysql_error ''ER_FK_CANNOT_OPEN_PARENT''
       (''Failed to open the referenced table '' @ quoted tbl)"

text \<open>
  \<^verbatim>\<open>CREATE TABLE IF NOT EXISTS\<close>: nothing happens when the table is there. Otherwise the
  names of its foreign keys must be new in the database and the tables they reference
  must exist.
\<close>

definition create_table_if_not_exists ::
  "string \<Rightarrow> (string \<times> string) list \<Rightarrow> foreign_key list \<Rightarrow> world \<Rightarrow> (js_error + unit) \<times> world"
  where
  "create_table_if_not_exists tbl cols fks w =
     (let sch = db_schema w
      in if tbl \<in> set (map fst sch) then (Inr (), w)
         else
           (case filter (\<lambda>fk. fk_name fk \<in> set (fk_names sch)) fks of
              fk # _ \<Rightarrow> (Inl (fk_dup_name (fk_name fk)), w)
            | [] \<Rightarrow>
                (case filter (\<lambda>fk. fk_ref_table fk \<notin> set (map fst sch)) fks of
                   fk # _ \<Rightarrow> (Inl (fk_cannot_open_parent (fk_ref_table fk)), w)
                 | [] \<Rightarrow>
                     (Inr (),
                      w\<lparr>db_schema := sch @ [(tbl, \<lparr>columns = cols, foreign_keys = fks\<rparr>)]\<rparr>))))"

text \<open>\<^verbatim>\<open>SHOW COLUMNS FROM tbl LIKE ?\<close>: one row for each column whose name matches.\<close>

definition show_columns_like ::
  "string \<Rightarrow> string \<Rightarrow> world \<Rightarrow> (js_error + (string \<times> string) list) \<times> world" where
  "show_columns_like tbl pat w =
     (case map_of (db_schema w) tbl of
        None \<Rightarrow> (Inl (no_such_table tbl), w)
      | Some t \<Rightarrow> (Inr (filter (\<lambda>(c, d). sql_like pat c) (columns t)), w))"

definition alter_table :: "string \<Rightarrow> (table_def \<Rightarrow> table_def) \<Rightarrow> schema \<Rightarrow> schema" where
  "alter_table tbl f sch = map (\<lambda>(n, t). if n = tbl then (n, f t) else (n, t)) sch"

text \<open>\<^verbatim>\<open>ALTER TABLE tbl ADD COLUMN col def\<close>\<close>

definition alter_add_column ::
  "string \<Rightarrow> string \<Rightarrow> string \<Rightarrow> world \<Rightarrow> (js_error + unit) \<times> world" where
  "alter_add_column tbl col def w =
     (case map_of (db_schema w) tbl of
        None \<Rightarrow> (Inl (no_such_table tbl), w)
      | Some t \<Rightarrow>
          if col \<in> set (map fst (columns t))
          then (Inl (mysql_error ''ER_DUP_FIELDNAME'' (''Duplicate column name '' @ quoted col)), w)
          else (Inr (),
                w\<lparr>db_schema :=
                    alter_table tbl (\<lambda>t. t\<lparr>columns := columns t @ [(col, def)]\<rparr>) (db_schema w)\<rparr>))"

text \<open>\<^verbatim>\<open>ALTER TABLE tbl ADD CONSTRAINT fk FOREIGN KEY ...\<close>\<close>

definition alter_add_constraint ::
  "string \<Rightarrow> foreign_key \<Rightarrow> world \<Rightarrow> (js_error + unit) \<times> world" where
  "alter_add_constraint tbl fk w =
     (case map_of (db_schema w) tbl of
        None \<Rightarrow> (Inl (no_such_table tbl), w)
      | Some t \<Rightarrow>
          if fk_name fk \<in> set (fk_names (db_schema w))
          then (Inl (fk_dup_name (fk_name fk)), w)
          else if fk_column fk \<notin> set (map fst (columns t))
          then (Inl (mysql_error ''ER_KEY_COLUMN_DOES_NOT_EXITS''
                       (''Key column '' @ quoted (fk_column fk) @ '' doesn't exist in table'')), w)
          else if fk_ref_table fk \<notin> set (map fst (db_schema w))
          then (Inl (fk_cannot_open_parent (fk_ref_table fk)), w)
          else (Inr (),
                w\<lparr>db_schema :=
                    alter_table tbl (\<lambda>t. t\<lparr>foreign_keys := foreign_keys t @ [fk]\<rparr>)
                      (db_schema w)\<rparr>))"

text \<open>\<^verbatim>\<open>s.includes(sub)\<close>\<close>

fun str_includes :: "string \<Rightarrow> string \<Rightarrow> bool" where
  "str_includes [] sub = (sub = [])"
| "str_includes (c # cs) sub = (take (length sub) (c # cs) = sub \<or> str_includes cs sub)"

text \<open>The errors \<^verbatim>\<open>ensureFk\<close> swallows.\<close>

definition tolerated :: "js_error \<Rightarrow> bool" where
  "tolerated err =
     (code err = Some ''ER_DUP_KEYNAME'' \<or>
      code err = Some ''ER_FK_DUP_NAME'' \<or>
      str_includes (case sqlMessage err of None \<Rightarrow> [] | Some m \<Rightarrow> m) ''already exists'')"

definition ensureColumn :: "string \<Rightarrow> string \<Rightarrow> string \<Rightarrow> world \<Rightarrow> (js_error + unit) \<times> world"
  where
  "ensureColumn tbl col def w =
     (case pool_query (show_columns_like tbl col) w of
        (Inl err, w1) \<Rightarrow> (Inl err, w1)
      | (Inr cols, w1) \<Rightarrow>
          if cols = [] then pool_query (alter_add_column tbl col def) w1
          else (Inr (), w1))"

definition ensureFk :: "string \<Rightarrow> foreign_key \<Rightarrow> world \<Rightarrow> (js_error + unit) \<times> world" where
  "ensureFk tbl fk w =
     (case pool_query (alter_add_constraint tbl fk) w of
        (Inr u, w1) \<Rightarrow> (Inr (), w1)
      | (Inl err, w1) \<Rightarrow> if tolerated err then (Inr (), w1) else (Inl err, w1))"

definition users_columns :: "(string \<times> string) list" where
  "users_columns =
     [(''id'', ''INT AUTO_INCREMENT PRIMARY KEY''),
      (''email'', ''VARCHAR(255) NOT NULL UNIQUE''),
      (''password_hash'', ''VARCHAR(255) NOT NULL''),
      (''name'', ''VARCHAR(255) NOT NULL''),
      (''role'', ''ENUM('' @ quoted ''user'' @ '', '' @ quoted ''admin''
                  @ '') NOT NULL DEFAULT '' @ quoted ''user''),
      (''created_at'', ''DATETIME NOT NULL DEFAULT CURRENT_TIMESTAMP'')]"

definition jobs_columns :: "(string \<times> string) list" where
  "jobs_columns =
     [(''id'', ''INT AUTO_INCREMENT PRIMARY KEY''),
      (''title'', ''VARCHAR(255) NOT NULL''),
      (''company'', ''VARCHAR(255) NOT NULL''),
      (''description'', ''TEXT NOT NULL''),
      (''deadline'', ''DATETIME NOT NULL''),
      (''created_at'', ''DATETIME NOT NULL DEFAULT CURRENT_TIMESTAMP'')]"

definition applications_columns :: "(string \<times> string) list" where
  "applications_columns =
     [(''id'', ''INT AUTO_INCREMENT PRIMARY KEY''),
      (''job_id'', ''INT NOT NULL''),
      (''user_id'', ''INT''),
      (''name'', ''VARCHAR(255) NOT NULL''),
      (''email'', ''VARCHAR(255) NOT NULL''),
      (''phone'', ''VARCHAR(50) NOT NULL''),
      (''cover_letter'', ''TEXT NOT NULL''),
      (''resume_path'', ''VARCHAR(255) NOT NULL''),
      (''submitted_at'', ''DATETIME NOT NULL DEFAULT CURRENT_TIMESTAMP'')]"

definition fk_job :: foreign_key where
  "fk_job = \<lparr>fk_name = ''fk_job'', fk_column = ''job_id'', fk_ref_table = ''jobs'',
             fk_ref_column = ''id'', fk_on_delete = ''CASCADE''\<rparr>"

definition fk_user :: foreign_key where
  "fk_user = \<lparr>fk_name = ''fk_user'', fk_column = ''user_id'', fk_ref_table = ''users'',
              fk_ref_column = ''id'', fk_on_delete = ''SET NULL''\<rparr>"

text \<open>\<^verbatim>\<open>initDb\<close> of \<^verbatim>\<open>db.js\<close>: \<^term>\<open>Inl\<close> is the error it throws.\<close>

definition initDb :: "world \<Rightarrow> (js_error + unit) \<times> world" where
  "initDb w =
     (case pool_query (create_table_if_not_exists ''users'' users_columns []) w of
        (Inl err, w1) \<Rightarrow> (Inl err, w1)
      | (Inr _, w1) \<Rightarrow>
     (case pool_query (create_table_if_not_exists ''jobs'' jobs_columns []) w1 of
        (Inl err, w2) \<Rightarrow> (Inl err, w2)
      | (Inr _, w2) \<Rightarrow>
     (case pool_query
             (create_table_if_not_exists ''applications'' applications_columns [fk_job]) w2 of
        (Inl err, w3) \<Rightarrow> (Inl err, w3)
      | (Inr _, w3) \<Rightarrow>
     (case ensureColumn ''applications'' ''user_id'' ''INT NULL'' w3 of
        (Inl err, w4) \<Rightarrow> (Inl err, w4)
      | (Inr _, w4) \<Rightarrow> ensureFk ''applications'' fk_user w4))))"

section \<open>Seeding and startup\<close>

text \<open>
  \<^verbatim>\<open>SELECT COUNT(*) AS count FROM users WHERE role = 'admin'\<close> and
  \<^verbatim>\<open>SELECT COUNT(*) AS count FROM jobs\<close>
\<close>

definition select_count_admins :: "world \<Rightarrow> (js_error + int) \<times> world" where
  "select_count_admins w = (Inr (int (length (filter (\<lambda>u. u_role u = ''admin'') (users w)))), w)"

definition select_count_jobs :: "world \<Rightarrow> (js_error + int) \<times> world" where
  "select_count_jobs w = (Inr (int (length (jobs w))), w)"

text \<open>
  \<^verbatim>\<open>seedData\<close> of \<^verbatim>\<open>server.js\<close>. \<open>admin_password\<close> is \<^verbatim>\<open>process.env.ADMIN_PASSWORD\<close>,
  \<open>t1\<close> and \<open>t2\<close> are the two values of \<^verbatim>\<open>Date.now()\<close>. What it writes to the console is
  left out.
\<close>

definition seedData ::
  "runtime \<Rightarrow> (string \<Rightarrow> string) \<Rightarrow> string option \<Rightarrow> int \<Rightarrow> int \<Rightarrow> world
     \<Rightarrow> (js_error + unit) \<times> world" where
  "seedData rt bcrypt_hash admin_password t1 t2 w =
     (case pool_query select_count_admins w of
        (Inl err, w1) \<Rightarrow> (Inl err, w1)
      | (Inr count, w1) \<Rightarrow>
          (case (if count = 0
                 then
                   (let adminPassword =
                          (if falsy admin_password then ''admin123'' else the admin_password);
                        passwordHash = bcrypt_hash adminPassword
                    in case pool_query
                              (insert_user ''admin@jobboard.com'' passwordHash ''Admin User''
                                 ''admin'') w1 of
                         (Inl err, w2) \<Rightarrow> (Inl err, w2)
                       | (Inr _, w2) \<Rightarrow> (Inr (), w2))
                 else (Inr (), w1)) of
             (Inl err, w2) \<Rightarrow> (Inl err, w2)
           | (Inr _, w2) \<Rightarrow>
               (case pool_query select_count_jobs w2 of
                  (Inl err, w3) \<Rightarrow> (Inl err, w3)
                | (Inr count, w3) \<Rightarrow>
                    if count = 0
                    then
                      (case pool_query
                              (insert_job rt ''Frontend Engineer'' ''Acme Corp''
                                 ''Build UI components and improve UX.''
                                 (toMySqlDateTime rt (Millis (t1 + 7 * 24 * 60 * 60 * 1000))))
                              w3 of
                         (Inl err, w4) \<Rightarrow> (Inl err, w4)
                       | (Inr _, w4) \<Rightarrow>
                           (case pool_query
                                   (insert_job rt ''Backend Developer'' ''Globex''
                                      ''Work on APIs and database performance.''
                                      (toMySqlDateTime rt
                                         (Millis (t2 + 14 * 24 * 60 * 60 * 1000))))
                                   w4 of
                              (Inl err, w5) \<Rightarrow> (Inl err, w5)
                            | (Inr _, w5) \<Rightarrow> (Inr (), w5)))
                    else (Inr (), w3))))"

text \<open>
  \<^verbatim>\<open>start\<close> of \<^verbatim>\<open>server.js\<close>: an error of \<^verbatim>\<open>initDb\<close> or of \<^verbatim>\<open>seedData\<close> ends the
  process with code 1, otherwise the server listens.
\<close>

datatype startup = Listening | Exited nat

definition start ::
  "runtime \<Rightarrow> (string \<Rightarrow> string) \<Rightarrow> string option \<Rightarrow> int \<Rightarrow> int \<Rightarrow> world
     \<Rightarrow> startup \<times> world" where
  "start rt bcrypt_hash admin_password t1 t2 w =
     (case initDb w of
        (Inl err, w1) \<Rightarrow> (Exited 1, w1)
      | (Inr _, w1) \<Rightarrow>
          (case seedData rt bcrypt_hash admin_password t1 t2 w1 of
             (Inl err, w2) \<Rightarrow> (Exited 1, w2)
           | (Inr _, w2) \<Rightarrow> (Listening, w2)))"

section \<open>Vocabulary of the properties\<close>

text \<open>
  The next \<open>n\<close> calls of \<^verbatim>\<open>pool.query\<close> reach the engine: none of them fails for a
  reason outside the statement and the store.
\<close>

definition executes :: "nat \<Rightarrow> world \<Rightarrow> bool" where
  "executes n w = list_all (\<lambda>e. e = None) (take n (faults w))"

text \<open>
  The file that came with the request, if any, is in the upload directory: the state in
  which multer hands the request to the handler.
\<close>

definition received :: "request \<Rightarrow> world \<Rightarrow> bool" where
  "received req w = (case req_file req of None \<Rightarrow> True | Some f \<Rightarrow> path f \<in> files w)"

text \<open>
  What the bootstrap ensures of a schema: the three tables, a column of \<^verbatim>\<open>applications\<close>
  that answers the pattern \<^verbatim>\<open>user_id\<close>, and a foreign key named \<^verbatim>\<open>fk_user\<close>.
\<close>

definition bootstrapped :: "schema \<Rightarrow> bool" where
  "bootstrapped sch =
     (''users'' \<in> set (map fst sch) \<and> ''jobs'' \<in> set (map fst sch) \<and>
      (case map_of sch ''applications'' of
         None \<Rightarrow> False
       | Some t \<Rightarrow> filter (\<lambda>(c, d). sql_like ''user_id'' c) (columns t) \<noteq> []) \<and>
      ''fk_user'' \<in> set (fk_names sch))"

text \<open>The keys of a JSON value, at any depth, and its strings.\<close>

fun json_keys :: "json \<Rightarrow> string list" where
  "json_keys (JNum n) = []"
| "json_keys (JStr s) = []"
| "json_keys (JObj kvs) = concat (map (\<lambda>(k, v). k # json_keys v) kvs)"

fun json_strings :: "json \<Rightarrow> string list" where
  "json_strings (JNum n) = []"
| "json_strings (JStr s) = [s]"
| "json_strings (JObj kvs) = concat (map (\<lambda>(k, v). json_strings v) kvs)"

text \<open>A value that is not empty and consists of white space only.\<close>

definition blank :: "string \<Rightarrow> bool" where
  "blank s = (s \<noteq> [] \<and> filter js_space s = s)"

text \<open>
  The stored name as the specification words it: the time stamp in front and the white
  space of the original name stripped. The separator after the time stamp is the one of
  the code, so that the two names differ only in what happens to white space.
\<close>

definition strip_spaces :: "string \<Rightarrow> string" where
  "strip_spaces s = filter (\<lambda>c. \<not> js_space c) s"

definition spec_storage_filename :: "int \<Rightarrow> string \<Rightarrow> string" where
  "spec_storage_filename now orig = number_to_string now @ ''-'' @ strip_spaces orig"

section \<open>Sample data\<close>

text \<open>
  A small store: a user and an admin, one job open until instant 2000 and one closed at
  instant 500, no application yet, an empty upload directory.
\<close>

definition sample_world :: world where
  "sample_world =
     \<lparr>db_schema = [],
      users =
        [\<lparr>u_id = 1, u_email = ''a@x.com'', u_password_hash = ''$2a$10$alice'',
          u_name = ''Alice'', u_role = ''user'', u_created_at = 10\<rparr>,
         \<lparr>u_id = 2, u_email = ''admin@jobboard.com'', u_password_hash = ''$2a$10$admin'',
          u_name = ''Admin User'', u_role = ''admin'', u_created_at = 5\<rparr>],
      users_next_id = 3,
      jobs =
        [\<lparr>j_id = 1, j_title = ''QA Engineer'', j_company = ''Acme'', j_description = ''desc'',
          j_deadline = 2000, j_created_at = 20\<rparr>,
         \<lparr>j_id = 2, j_title = ''Clerk'', j_company = ''Globex'', j_description = ''old'',
          j_deadline = 500, j_created_at = 20\<rparr>],
      jobs_next_id = 3,
      applications = [],
      applications_next_id = 1,
      clock = 1000,
      files = {},
      faults = [],
      production = False\<rparr>"

definition sample_upload :: upload where
  "sample_upload =
     \<lparr>originalname = ''cv.pdf'', filename = ''900-cv.pdf'', path = ''uploads/900-cv.pdf''\<rparr>"

text \<open>
  Alice applies to job 1 with all four fields and a resume that is in the upload
  directory of \<open>sample_stored\<close>.
\<close>

definition sample_request :: request where
  "sample_request =
     \<lparr>params_id = ''1'',
      req_session = \<lparr>userId = Some 1, userRole = Some ''user''\<rparr>,
      req_body = [''name'' \<mapsto> ''Alice'', ''email'' \<mapsto> ''a@x.com'', ''phone'' \<mapsto> ''555 0100'',
                  ''coverLetter'' \<mapsto> ''Dear Acme''],
      req_file = Some sample_upload\<rparr>"

definition sample_stored :: world where
  "sample_stored = sample_world\<lparr>files := {''uploads/900-cv.pdf''}\<rparr>"

text \<open>Variants of the sample request.\<close>

definition sample_blank_request :: request where
  "sample_blank_request =
     sample_request\<lparr>req_body := [''name'' \<mapsto> ''  '', ''email'' \<mapsto> '' '', ''phone'' \<mapsto> ''   '',
                                  ''coverLetter'' \<mapsto> '' '']\<rparr>"

text \<open>A runtime that knows one date, and a request to create a job with a blank title.\<close>

definition sample_runtime :: runtime where
  "sample_runtime =
     \<lparr>date_parse = (\<lambda>v. if v = ''2030-01-01'' then Some 1893456000000 else None),
      to_iso = (\<lambda>t. ''2030-01-01T00:00:00.000Z''),
      read_datetime = (\<lambda>v. Some 1893456000000)\<rparr>"

definition sample_job_request :: request where
  "sample_job_request =
     \<lparr>params_id = [],
      req_session = \<lparr>userId = Some 2, userRole = Some ''admin''\<rparr>,
      req_body = [''title'' \<mapsto> ''   '', ''company'' \<mapsto> ''Acme'', ''description'' \<mapsto> ''desc'',
                  ''deadline'' \<mapsto> ''2030-01-01''],
      req_file = None\<rparr>"

text \<open>A session whose payload says \<^verbatim>\<open>admin\<close> for Alice, who is a plain user in the store.\<close>

definition sample_stale_request :: request where
  "sample_stale_request =
     sample_job_request\<lparr>req_session := \<lparr>userId = Some 1, userRole = Some ''admin''\<rparr>\<rparr>"

text \<open>Sign-up and sign-in forms.\<close>

definition sample_register_request :: request where
  "sample_register_request =
     \<lparr>params_id = [],
      req_session = \<lparr>userId = None, userRole = None\<rparr>,
      req_body = [''email'' \<mapsto> ''b@x.com'', ''password'' \<mapsto> ''secret1'', ''name'' \<mapsto> ''Bob''],
      req_file = None\<rparr>"

definition sample_login_request :: request where
  "sample_login_request =
     \<lparr>params_id = [],
      req_session = \<lparr>userId = None, userRole = None\<rparr>,
      req_body = [''email'' \<mapsto> ''a@x.com'', ''password'' \<mapsto> ''secret1''],
      req_file = None\<rparr>"

text \<open>A stand-in for bcrypt that accepts exactly Alice's password for Alice's hash.\<close>

definition sample_compare :: "string \<Rightarrow> string \<Rightarrow> bool" where
  "sample_compare p h = (p = ''secret1'' \<and> h = ''$2a$10$alice'')"

definition sample_hash :: "string \<Rightarrow> string" where
  "sample_hash p = ''$2a$10$'' @ p"

text \<open>
  The schema of a database set up before the user reference existed: the three tables,
  \<^verbatim>\<open>applications\<close> without the column \<^verbatim>\<open>user_id\<close> and without \<^verbatim>\<open>fk_user\<close>.
\<close>

definition sample_old_schema :: schema where
  "sample_old_schema =
     [(''users'', \<lparr>columns = users_columns, foreign_keys = []\<rparr>),
      (''jobs'', \<lparr>columns = jobs_columns, foreign_keys = []\<rparr>),
      (''applications'',
       \<lparr>columns = filter (\<lambda>(c, d). c \<noteq> ''user_id'') applications_columns,
        foreign_keys = [fk_job]\<rparr>)]"

text \<open>An error of the connection, as the driver reports it.\<close>

definition sample_connection_error :: js_error where
  "sample_connection_error =
     \<lparr>code = Some ''ECONNREFUSED'', message = ''connect ECONNREFUSED 127.0.0.1:3306'',
      sqlMessage = None\<rparr>"

text \<open>
  Alice's application with a telephone number of 51 digits, and Bob's registration under
  a name of 256 letters.
\<close>

definition sample_long_phone_request :: request where
  "sample_long_phone_request =
     sample_request\<lparr>req_body := (req_body sample_request)(''phone'' \<mapsto> replicate 51 CHR ''5'')\<rparr>"


section \<open>Auxiliary facts\<close>

subsection \<open>Sample data\<close>

lemmas sample_defs = sample_world_def sample_upload_def sample_request_def sample_stored_def

lemmas handler_defs = pool_query_def falsy_def falsy_number_def error_response_def
  error_handler_def

lemmas engine_defs = varchar_fits_def text_fits_def utf8_length_def

lemmas apply_defs = apply_handler_def apply_try_def apply_catch_def unlink_and_reject_def
  unlink_req_file_def unlinkSync_def select_jobs_by_id_def insert_application_def
  engine_defs

lemmas number_defs = number_to_string_def decimal.simps digit_char_def

lemmas parse_defs = parseInt_def js_space_def is_digit_def digits_value_def digit_value_def

lemma parseInt_sample: "parseInt ''1'' = Some 1"
  by (simp add: parse_defs)

lemma storage_filename_sample: "storage_filename 900 ''cv.pdf'' = ''900-cv.pdf''"
  by (simp add: storage_filename_def number_defs js_space_def)

subsection \<open>Calls of the pool\<close>

lemma pool_query_executes:
  "executes (Suc n) w \<Longrightarrow> pool_query stmt w = stmt (w\<lparr>faults := tl (faults w)\<rparr>)"
  by (cases w) (auto simp: executes_def pool_query_def split: list.splits option.splits)

lemma executes_tl:
  "executes (Suc n) w \<Longrightarrow> executes n (w\<lparr>faults := tl (faults w)\<rparr>)"
  by (cases "faults w") (auto simp: executes_def)


lemma files_pool_query:
  "(\<And>v. files (snd (stmt v)) = files v) \<Longrightarrow> files (snd (pool_query stmt w)) = files w"
  by (auto simp: pool_query_def split: list.splits option.splits)

lemma find_filter: "find P xs = Some x \<Longrightarrow> \<exists>rest. filter P xs = x # rest"
  by (induction xs) (auto split: if_splits)

lemma select_jobs_executes:
  "executes (Suc n) w \<Longrightarrow>
   pool_query (select_jobs_by_id i) w =
     (Inr (filter (\<lambda>j. j_id j = i) (jobs w)), w\<lparr>faults := tl (faults w)\<rparr>)"
  by (simp add: pool_query_executes select_jobs_by_id_def)

lemma insert_application_executes:
  "executes (Suc k) w \<Longrightarrow>
   varchar_fits 255 nm \<Longrightarrow> varchar_fits 255 e \<Longrightarrow> varchar_fits 50 ph \<Longrightarrow> text_fits cl \<Longrightarrow>
   varchar_fits 255 rp \<Longrightarrow> j \<in> set (map j_id (jobs w)) \<Longrightarrow> u \<in> set (map u_id (users w)) \<Longrightarrow>
   pool_query (insert_application j u nm e ph cl rp) w =
     (Inr (applications_next_id w),
      w\<lparr>faults := tl (faults w),
        applications := applications w @
             [\<lparr>a_id = applications_next_id w, a_job_id = j, a_user_id = Some u,
               a_name = nm, a_email = e, a_phone = ph, a_cover_letter = cl,
               a_resume_path = rp, a_submitted_at = clock w\<rparr>],
        applications_next_id := applications_next_id w + 1\<rparr>)"
  by (simp add: pool_query_executes insert_application_def)

lemma insert_application_refused:
  "executes (Suc k) w \<Longrightarrow>
   \<not> (varchar_fits 255 nm \<and> varchar_fits 255 e \<and> varchar_fits 50 ph \<and> text_fits cl \<and>
      varchar_fits 255 rp \<and> u \<in> set (map u_id (users w))) \<Longrightarrow>
   \<exists>err. pool_query (insert_application j u nm e ph cl rp) w
           = (Inl err, w\<lparr>faults := tl (faults w)\<rparr>)"
  by (auto simp: pool_query_executes insert_application_def)

lemma find_in: "find P xs = Some x \<Longrightarrow> x \<in> set xs \<and> P x"
  by (induction xs) (auto split: if_splits)

lemma filter_find: "filter P xs = x # rest \<Longrightarrow> find P xs = Some x"
  by (induction xs) (auto split: if_splits)

lemma find_None_filter: "find P xs = None \<Longrightarrow> filter P xs = []"
  by (induction xs) (auto split: if_splits)

lemma select_users_by_email_executes:
  "executes (Suc n) w \<Longrightarrow>
   pool_query (select_users_by_email e) w =
     (Inr (filter (\<lambda>u. u_email u = e) (users w)), w\<lparr>faults := tl (faults w)\<rparr>)"
  by (simp add: pool_query_executes select_users_by_email_def)

lemma select_users_by_id_executes:
  "executes (Suc n) w \<Longrightarrow>
   pool_query (select_users_by_id i) w =
     (Inr (filter (\<lambda>u. u_id u = i) (users w)), w\<lparr>faults := tl (faults w)\<rparr>)"
  by (simp add: pool_query_executes select_users_by_id_def)



lemma trim_no_space: "filter js_space s = [] \<Longrightarrow> trim s = s"
proof -
  assume "filter js_space s = []"
  then have n: "\<forall>c\<in>set s. \<not> js_space c" by (simp add: filter_empty_conv)
  then have d: "dropWhile js_space s = s" by (cases s) auto
  from n have "dropWhile js_space (rev s) = rev s" by (cases "rev s") auto
  with d show ?thesis by (simp add: trim_def)
qed

subsection \<open>White space\<close>

lemma trim_blank: "filter js_space s = s \<Longrightarrow> trim s = []"
proof -
  assume "filter js_space s = s"
  then have "\<forall>c\<in>set s. js_space c" by (simp add: filter_id_conv)
  then have d: "dropWhile js_space s = []" by simp
  show ?thesis unfolding trim_def d by simp
qed

subsection \<open>The branches of the application handler\<close>

lemma received_faults [simp]: "received req (w\<lparr>faults := fs\<rparr>) = received req w"
  by (simp add: received_def split: option.splits)

lemma unlink_and_reject_received:
  assumes "received req w"
  shows "fst (unlink_and_reject req n msg w) = Inr (error_response n msg)"
    and "applications (snd (unlink_and_reject req n msg w)) = applications w"
    and "users (snd (unlink_and_reject req n msg w)) = users w"
    and "jobs (snd (unlink_and_reject req n msg w)) = jobs w"
  using assms
  by (auto simp: received_def unlink_and_reject_def unlink_req_file_def unlinkSync_def
      split: option.splits)

lemma apply_handler_of_try:
  "fst (apply_try now req w) = Inr res \<Longrightarrow>
   apply_handler now req w = (res, snd (apply_try now req w))"
  by (cases "apply_try now req w") (simp add: apply_handler_def)

lemma select_jobs_files:
  "pool_query (select_jobs_by_id i) w = (r, v) \<Longrightarrow> files v = files w"
  using files_pool_query[of "select_jobs_by_id i" w] by (simp add: select_jobs_by_id_def)

lemma insert_application_files:
  "pool_query (insert_application j u n e ph cl rp) w = (r, v) \<Longrightarrow> files v = files w"
  using files_pool_query[of "insert_application j u n e ph cl rp" w]
  by (simp add: insert_application_def)

lemma insert_application_rows:
  "pool_query (insert_application j u n e ph cl rp) w = (Inl err, v) \<Longrightarrow>
   applications v = applications w"
  by (auto simp: pool_query_def insert_application_def split: list.splits option.splits if_splits)

lemma unlink_and_reject_eq:
  "req_file req = Some f \<Longrightarrow>
   unlink_and_reject req n msg w =
     (if path f \<in> files w
      then (Inr (error_response n msg), w\<lparr>files := files w - {path f}\<rparr>)
      else (Inl \<lparr>code = Some ''ENOENT'',
                 message = ''ENOENT: no such file or directory, unlink '' @ [CHR 0x27]
                             @ path f @ [CHR 0x27],
                 sqlMessage = None\<rparr>, w))"
  by (simp add: unlink_and_reject_def unlink_req_file_def unlinkSync_def)

lemma unlink_and_reject_none:
  "req_file req = None \<Longrightarrow> unlink_and_reject req n msg w = (Inr (error_response n msg), w)"
  by (simp add: unlink_and_reject_def unlink_req_file_def)

lemma unlink_and_reject_files:
  assumes "req_file req = Some f" and "unlink_and_reject req n msg w = (r, w')"
  shows "files w' = files w - {path f}"
  using assms by (auto simp: unlink_and_reject_eq split: if_splits)

lemma files_apply_catch:
  "req_file req = Some f \<Longrightarrow> files (snd (apply_catch req err w)) = files w - {path f}"
  by (simp add: apply_catch_def Let_def unlinkSync_def)

lemma apply_try_invalid_id:
  "falsy_number (parseInt (params_id req)) \<Longrightarrow>
   apply_try now req w = unlink_and_reject req 400 ''Invalid job ID'' w"
  by (simp add: apply_try_def Let_def)

lemma apply_try_no_session:
  "\<not> falsy_number (parseInt (params_id req)) \<Longrightarrow>
   falsy_number (userId (req_session req)) \<Longrightarrow>
   apply_try now req w = unlink_and_reject req 401 ''User session not found'' w"
  by (simp add: apply_try_def Let_def)

lemma apply_try_select_throws:
  "\<not> falsy_number (parseInt (params_id req)) \<Longrightarrow>
   \<not> falsy_number (userId (req_session req)) \<Longrightarrow>
   pool_query (select_jobs_by_id (the (parseInt (params_id req)))) w = (Inl err, w1) \<Longrightarrow>
   apply_try now req w = (Inl err, w1)"
  by (simp add: apply_try_def Let_def)

lemma apply_try_not_found:
  "\<not> falsy_number (parseInt (params_id req)) \<Longrightarrow>
   \<not> falsy_number (userId (req_session req)) \<Longrightarrow>
   pool_query (select_jobs_by_id (the (parseInt (params_id req)))) w = (Inr [], w1) \<Longrightarrow>
   apply_try now req w = unlink_and_reject req 404 ''Job not found'' w1"
  by (simp add: apply_try_def Let_def)

lemma apply_try_deadline_passed:
  "\<not> falsy_number (parseInt (params_id req)) \<Longrightarrow>
   \<not> falsy_number (userId (req_session req)) \<Longrightarrow>
   pool_query (select_jobs_by_id (the (parseInt (params_id req)))) w = (Inr (job # rest), w1) \<Longrightarrow>
   j_deadline job < now \<Longrightarrow>
   apply_try now req w = unlink_and_reject req 400 ''Application deadline has passed'' w1"
  by (simp add: apply_try_def Let_def)

lemma apply_try_missing_field:
  "\<not> falsy_number (parseInt (params_id req)) \<Longrightarrow>
   \<not> falsy_number (userId (req_session req)) \<Longrightarrow>
   pool_query (select_jobs_by_id (the (parseInt (params_id req)))) w = (Inr (job # rest), w1) \<Longrightarrow>
   \<not> j_deadline job < now \<Longrightarrow>
   falsy (req_body req ''name'') \<or> falsy (req_body req ''email'') \<or>
   falsy (req_body req ''phone'') \<or> falsy (req_body req ''coverLetter'') \<Longrightarrow>
   apply_try now req w = unlink_and_reject req 400 ''Missing required fields'' w1"
  by (simp add: apply_try_def Let_def)

lemma apply_try_insert:
  "\<not> falsy_number (parseInt (params_id req)) \<Longrightarrow>
   \<not> falsy_number (userId (req_session req)) \<Longrightarrow>
   pool_query (select_jobs_by_id (the (parseInt (params_id req)))) w = (Inr (job # rest), w1) \<Longrightarrow>
   \<not> j_deadline job < now \<Longrightarrow>
   \<not> (falsy (req_body req ''name'') \<or> falsy (req_body req ''email'') \<or>
      falsy (req_body req ''phone'') \<or> falsy (req_body req ''coverLetter'')) \<Longrightarrow>
   req_file req = Some f \<Longrightarrow>
   apply_try now req w =
     (case pool_query
             (insert_application (the (parseInt (params_id req)))
                (the (userId (req_session req)))
                (trim (the (req_body req ''name''))) (trim (the (req_body req ''email'')))
                (trim (the (req_body req ''phone'')))
                (trim (the (req_body req ''coverLetter''))) (filename f)) w1 of
        (Inl err, w2) \<Rightarrow> (Inl err, w2)
      | (Inr u, w2) \<Rightarrow>
          (Inr \<lparr>status = 201,
                body = JObj [(''message'', JStr ''Application submitted successfully'')]\<rparr>,
           w2))"
  by (simp add: apply_try_def Let_def)

lemma apply_handler_deadline_passed:
  assumes "received req w" and "userId (req_session req) = Some u" and "u \<noteq> 0"
    and "parseInt (params_id req) = Some n" and "n \<noteq> 0" and "executes 1 w"
    and "find (\<lambda>j. j_id j = n) (jobs w) = Some job" and "j_deadline job < now"
  shows "apply_handler now req w =
           (error_response 400 ''Application deadline has passed'',
            snd (unlink_and_reject req 400 ''Application deadline has passed''
                   (w\<lparr>faults := tl (faults w)\<rparr>)))"
proof -
  let ?w1 = "w\<lparr>faults := tl (faults w)\<rparr>"
  from assms have nf: "\<not> falsy_number (parseInt (params_id req))"
    "\<not> falsy_number (userId (req_session req))" by (simp_all add: falsy_number_def)
  from find_filter[OF assms(7)] obtain rest
    where "filter (\<lambda>j. j_id j = n) (jobs w) = job # rest" by auto
  moreover from assms(6) have "executes (Suc 0) w" by simp
  ultimately have "pool_query (select_jobs_by_id (the (parseInt (params_id req)))) w
                     = (Inr (job # rest), ?w1)"
    using assms(4) by (simp add: select_jobs_executes[of 0])
  from apply_try_deadline_passed[OF nf this assms(8)]
  have t: "apply_try now req w
             = unlink_and_reject req 400 ''Application deadline has passed'' ?w1" .
  from assms(1) have "received req ?w1" by simp
  with t have "fst (apply_try now req w)
                 = Inr (error_response 400 ''Application deadline has passed'')"
    by (simp add: unlink_and_reject_received)
  from apply_handler_of_try[OF this] t show ?thesis by simp
qed

lemma apply_handler_success:
  assumes "userId (req_session req) = Some u" and "u \<noteq> 0"
    and "parseInt (params_id req) = Some n" and "n \<noteq> 0" and "executes 2 w"
    and "find (\<lambda>j. j_id j = n) (jobs w) = Some job" and "\<not> j_deadline job < now"
    and "req_body req ''name'' = Some nm" and "nm \<noteq> []"
    and "req_body req ''email'' = Some em" and "em \<noteq> []"
    and "req_body req ''phone'' = Some ph" and "ph \<noteq> []"
    and "req_body req ''coverLetter'' = Some cl" and "cl \<noteq> []"
    and "req_file req = Some f"
    and "varchar_fits 255 (trim nm)" and "varchar_fits 255 (trim em)"
    and "varchar_fits 50 (trim ph)" and "text_fits (trim cl)"
    and "varchar_fits 255 (filename f)" and "u \<in> set (map u_id (users w))"
  shows "apply_handler now req w =
           (\<lparr>status = 201,
             body = JObj [(''message'', JStr ''Application submitted successfully'')]\<rparr>,
            w\<lparr>faults := tl (tl (faults w)),
              applications := applications w @
                [\<lparr>a_id = applications_next_id w, a_job_id = n, a_user_id = Some u,
                  a_name = trim nm, a_email = trim em, a_phone = trim ph,
                  a_cover_letter = trim cl, a_resume_path = filename f,
                  a_submitted_at = clock w\<rparr>],
              applications_next_id := applications_next_id w + 1\<rparr>)"
proof -
  let ?w1 = "w\<lparr>faults := tl (faults w)\<rparr>"
  from assms have nf: "\<not> falsy_number (parseInt (params_id req))"
    "\<not> falsy_number (userId (req_session req))" by (simp_all add: falsy_number_def)
  from assms have fields: "\<not> (falsy (req_body req ''name'') \<or> falsy (req_body req ''email'') \<or>
      falsy (req_body req ''phone'') \<or> falsy (req_body req ''coverLetter''))"
    by (simp add: falsy_def)
  from find_filter[OF assms(6)] obtain rest
    where "filter (\<lambda>j. j_id j = n) (jobs w) = job # rest" by auto
  moreover from assms(5) have e2: "executes (Suc (Suc 0)) w" by (simp add: numeral_2_eq_2)
  ultimately have q: "pool_query (select_jobs_by_id (the (parseInt (params_id req)))) w
                     = (Inr (job # rest), ?w1)"
    using assms(3) by (simp add: select_jobs_executes[of "Suc 0"])
  from e2 have e1: "executes (Suc 0) ?w1" by (rule executes_tl)
  from find_in[OF assms(6)] have jm: "n \<in> set (map j_id (jobs ?w1))" by force
  from assms(22) have um: "u \<in> set (map u_id (users ?w1))" by simp
  note ins = insert_application_executes[OF e1 assms(17) assms(18) assms(19) assms(20)
      assms(21) jm um]
  from apply_try_insert[OF nf q assms(7) fields assms(16)] assms(1,3,8,10,12,14)
  have "apply_try now req w =
          (Inr \<lparr>status = 201,
                body = JObj [(''message'', JStr ''Application submitted successfully'')]\<rparr>,
           ?w1\<lparr>faults := tl (faults ?w1),
              applications := applications ?w1 @
                [\<lparr>a_id = applications_next_id ?w1, a_job_id = n, a_user_id = Some u,
                  a_name = trim nm, a_email = trim em, a_phone = trim ph,
                  a_cover_letter = trim cl, a_resume_path = filename f,
                  a_submitted_at = clock ?w1\<rparr>],
              applications_next_id := applications_next_id ?w1 + 1\<rparr>)"
    by (simp add: ins)
  then show ?thesis by (simp add: apply_handler_def)
qed

lemma apply_handler_refused:
  assumes "userId (req_session req) = Some u" and "u \<noteq> 0"
    and "parseInt (params_id req) = Some n" and "n \<noteq> 0" and "executes 2 w"
    and "find (\<lambda>j. j_id j = n) (jobs w) = Some job" and "\<not> j_deadline job < now"
    and "req_body req ''name'' = Some nm" and "nm \<noteq> []"
    and "req_body req ''email'' = Some em" and "em \<noteq> []"
    and "req_body req ''phone'' = Some ph" and "ph \<noteq> []"
    and "req_body req ''coverLetter'' = Some cl" and "cl \<noteq> []"
    and "req_file req = Some f"
    and "\<not> (varchar_fits 255 (trim nm) \<and> varchar_fits 255 (trim em) \<and>
            varchar_fits 50 (trim ph) \<and> text_fits (trim cl) \<and>
            varchar_fits 255 (filename f) \<and> u \<in> set (map u_id (users w)))"
  shows "status (fst (apply_handler now req w)) = 500"
    and "applications (snd (apply_handler now req w)) = applications w"
    and "files (snd (apply_handler now req w)) = files w - {path f}"
proof -
  let ?w1 = "w\<lparr>faults := tl (faults w)\<rparr>"
  let ?w2 = "?w1\<lparr>faults := tl (faults ?w1)\<rparr>"
  from assms have nf: "\<not> falsy_number (parseInt (params_id req))"
    "\<not> falsy_number (userId (req_session req))" by (simp_all add: falsy_number_def)
  from assms have fields: "\<not> (falsy (req_body req ''name'') \<or> falsy (req_body req ''email'') \<or>
      falsy (req_body req ''phone'') \<or> falsy (req_body req ''coverLetter''))"
    by (simp add: falsy_def)
  from find_filter[OF assms(6)] obtain rest
    where "filter (\<lambda>j. j_id j = n) (jobs w) = job # rest" by auto
  moreover from assms(5) have e2: "executes (Suc (Suc 0)) w" by (simp add: numeral_2_eq_2)
  ultimately have q: "pool_query (select_jobs_by_id (the (parseInt (params_id req)))) w
                     = (Inr (job # rest), ?w1)"
    using assms(3) by (simp add: select_jobs_executes[of "Suc 0"])
  from e2 have e1: "executes (Suc 0) ?w1" by (rule executes_tl)
  from assms(17)
  have "\<not> (varchar_fits 255 (trim nm) \<and> varchar_fits 255 (trim em) \<and>
            varchar_fits 50 (trim ph) \<and> text_fits (trim cl) \<and>
            varchar_fits 255 (filename f) \<and> u \<in> set (map u_id (users ?w1)))"
    by simp
  from insert_application_refused[OF e1 this, of n] obtain err
    where ins: "pool_query (insert_application n u (trim nm) (trim em) (trim ph) (trim cl)
                              (filename f)) ?w1 = (Inl err, ?w2)"
    by auto
  from apply_try_insert[OF nf q assms(7) fields assms(16)] assms(1,3,8,10,12,14)
  have "apply_try now req w = (Inl err, ?w2)" by (simp add: ins)
  then have h: "apply_handler now req w = apply_catch req err ?w2"
    by (simp add: apply_handler_def)
  show "status (fst (apply_handler now req w)) = 500"
    by (simp add: h apply_catch_def Let_def error_handler_def)
  show "applications (snd (apply_handler now req w)) = applications w"
    using assms(16) by (simp add: h apply_catch_def Let_def unlinkSync_def)
  show "files (snd (apply_handler now req w)) = files w - {path f}"
    using files_apply_catch[OF assms(16), of err ?w2] by (simp add: h)
qed

text \<open>
  What the \<^verbatim>\<open>try\<close> block leaves in the upload directory when a file was received: the
  file is gone, or nothing changed and the block either threw or answered 201.
\<close>

lemma apply_try_files:
  assumes f: "req_file req = Some f" and t: "apply_try now req w = (r, w')"
  shows "files w' = files w - {path f} \<or>
         files w' = files w \<and> (\<forall>res. r = Inr res \<longrightarrow> status res = 201)"
proof -
  let ?jobId = "parseInt (params_id req)" and ?userId = "userId (req_session req)"
  consider (a) "falsy_number ?jobId"
    | (b) "\<not> falsy_number ?jobId" "falsy_number ?userId"
    | (c) "\<not> falsy_number ?jobId" "\<not> falsy_number ?userId" by blast
  then show ?thesis
  proof cases
    case a
    with t have "unlink_and_reject req 400 ''Invalid job ID'' w = (r, w')"
      by (simp add: apply_try_invalid_id)
    from unlink_and_reject_files[OF f this] show ?thesis by simp
  next
    case b
    with t have "unlink_and_reject req 401 ''User session not found'' w = (r, w')"
      by (simp add: apply_try_no_session)
    from unlink_and_reject_files[OF f this] show ?thesis by simp
  next
    case c
    obtain q w1 where q: "pool_query (select_jobs_by_id (the ?jobId)) w = (q, w1)" by force
    then have w1: "files w1 = files w" by (rule select_jobs_files)
    show ?thesis
    proof (cases q)
      case (Inl err)
      with c q t have "w' = w1" "r = Inl err" by (simp_all add: apply_try_select_throws)
      with w1 show ?thesis by simp
    next
      case (Inr rows)
      show ?thesis
      proof (cases rows)
        case Nil
        with c q Inr t have "unlink_and_reject req 404 ''Job not found'' w1 = (r, w')"
          by (simp add: apply_try_not_found)
        from unlink_and_reject_files[OF f this] w1 show ?thesis by simp
      next
        case (Cons job rest)
        note q' = q[unfolded Inr Cons]
        show ?thesis
        proof (cases "j_deadline job < now")
          case True
          with c q' t
          have "unlink_and_reject req 400 ''Application deadline has passed'' w1 = (r, w')"
            by (simp add: apply_try_deadline_passed)
          from unlink_and_reject_files[OF f this] w1 show ?thesis by simp
        next
          case late: False
          show ?thesis
          proof (cases "falsy (req_body req ''name'') \<or> falsy (req_body req ''email'') \<or>
                        falsy (req_body req ''phone'') \<or> falsy (req_body req ''coverLetter'')")
            case True
            from apply_try_missing_field[OF c q' late True] t
            have "unlink_and_reject req 400 ''Missing required fields'' w1 = (r, w')" by simp
            from unlink_and_reject_files[OF f this] w1 show ?thesis by simp
          next
            case False
            obtain i w2 where i: "pool_query
                (insert_application (the ?jobId) (the ?userId)
                   (trim (the (req_body req ''name''))) (trim (the (req_body req ''email'')))
                   (trim (the (req_body req ''phone'')))
                   (trim (the (req_body req ''coverLetter''))) (filename f)) w1 = (i, w2)"
              by force
            then have w2: "files w2 = files w1" by (rule insert_application_files)
            from apply_try_insert[OF c q' late False f] t i
            have "(r, w') =
                    (case i of
                       Inl err \<Rightarrow> (Inl err, w2)
                     | Inr u \<Rightarrow>
                         (Inr \<lparr>status = 201,
                               body = JObj [(''message'',
                                             JStr ''Application submitted successfully'')]\<rparr>,
                          w2))"
              by (simp split: sum.splits)
            with w1 w2 show ?thesis by (auto split: sum.splits)
          qed
        qed
      qed
    qed
  qed
qed

lemma apply_handler_failure_files:
  assumes "req_file req = Some f" and "apply_handler now req w = (res, w')"
    and "status res \<noteq> 201"
  shows "files w' = files w - {path f}"
proof -
  obtain r w1 where t: "apply_try now req w = (r, w1)" by force
  note fs = apply_try_files[OF assms(1) t]
  show ?thesis
  proof (cases r)
    case (Inl err)
    with t assms(2) have "w' = snd (apply_catch req err w1)"
      by (simp add: apply_handler_def)
    with fs show ?thesis using files_apply_catch[OF assms(1), of err w1] by auto
  next
    case (Inr r2)
    with t assms(2) have "r2 = res" "w1 = w'" by (simp_all add: apply_handler_def)
    with fs Inr assms(3) show ?thesis by simp
  qed
qed

subsection \<open>The branches of registration\<close>





subsection \<open>Reading the job identifier\<close>


lemma is_digit_not_space: "is_digit c \<Longrightarrow> \<not> js_space c"
  by (auto simp: is_digit_def js_space_def)









subsection \<open>Names of stored files\<close>

lemma js_space_digit_char: "d < 10 \<Longrightarrow> \<not> js_space (digit_char d)"
proof -
  assume "d < 10"
  then have "digit_char d \<in> set ''0123456789''"
    unfolding digit_char_def by (intro nth_mem) simp
  then show ?thesis by (auto simp: js_space_def)
qed

lemma decimal_no_space: "filter js_space (decimal n) = []"
proof (induction n rule: decimal.induct)
  case (1 n)
  show ?case
  proof (cases "n < 10")
    case True
    then show ?thesis by (subst decimal.simps) (simp add: js_space_digit_char)
  next
    case False
    with 1 show ?thesis by (subst decimal.simps) (simp add: js_space_digit_char)
  qed
qed

lemma number_to_string_no_space: "filter js_space (number_to_string i) = []"
  by (simp add: number_to_string_def decimal_no_space js_space_def)

lemma replace_spaces_no_space: "filter js_space (replace_spaces s) = []"
  by (induction s rule: replace_spaces.induct) (simp_all add: js_space_def)

lemma replace_spaces_id: "filter js_space s = [] \<Longrightarrow> replace_spaces s = s"
  by (induction s) (auto split: if_splits)

lemma replace_spaces_run:
  assumes "ws \<noteq> []" and "filter js_space ws = ws" and "b = [] \<or> \<not> js_space (hd b)"
  shows "replace_spaces (ws @ b) = CHR ''-'' # replace_spaces b"
proof -
  obtain c cs where ws: "ws = c # cs" using assms(1) by (cases ws) auto
  have all: "\<forall>x\<in>set ws. js_space x" using assms(2) by (simp add: filter_id_conv)
  have "dropWhile js_space (cs @ b) = dropWhile js_space b"
    using all ws by simp
  also have "\<dots> = b" using assms(3) by (cases b) auto
  finally have "dropWhile js_space (cs @ b) = b" .
  moreover have "js_space c" using all ws by simp
  ultimately show ?thesis unfolding ws by simp
qed

lemma replace_spaces_append:
  "a = [] \<or> \<not> js_space (last a) \<Longrightarrow>
   replace_spaces (a @ b) = replace_spaces a @ replace_spaces b"
proof (induction a rule: replace_spaces.induct)
  case 1
  then show ?case by simp
next
  case (2 c cs)
  show ?case
  proof (cases "js_space c")
    case True
    with 2(3) have ne: "cs \<noteq> []" and l: "\<not> js_space (last cs)"
      by (auto split: if_splits)
    then have mem: "last cs \<in> set cs" by simp
    have d: "dropWhile js_space (cs @ b) = dropWhile js_space cs @ b"
      using mem l by (rule dropWhile_append1)
    have dne: "dropWhile js_space cs \<noteq> []"
      using mem l by auto
    have "last (dropWhile js_space cs) = last cs"
      using dne by (metis last_appendR takeWhile_dropWhile_id)
    with 2(1)[OF True] l dne
    have "replace_spaces (dropWhile js_space cs @ b) =
            replace_spaces (dropWhile js_space cs) @ replace_spaces b"
      by simp
    with True d show ?thesis by simp
  next
    case False
    then show ?thesis
    proof (cases "cs = []")
      case True
      with False show ?thesis by simp
    next
      case ne: False
      with 2(3) have "\<not> js_space (last cs)" by simp
      with 2(2)[OF False] False show ?thesis by simp
    qed
  qed
qed

subsection \<open>The bootstrap\<close>

lemma pool_query_no_faults: "faults w = [] \<Longrightarrow> pool_query stmt w = stmt w"
  by (simp add: pool_query_def)

lemma tolerated_fk_dup_name: "tolerated (fk_dup_name n)"
  by (simp add: tolerated_def fk_dup_name_def mysql_error_def)

lemma not_tolerated_engine:
  "\<not> tolerated (no_such_table ''applications'')"
  "\<not> tolerated (fk_cannot_open_parent ''users'')"
  "\<not> tolerated (mysql_error ''ER_KEY_COLUMN_DOES_NOT_EXITS''
                    (''Key column '' @ quoted ''user_id'' @ '' doesn't exist in table''))"
  by (simp_all add: tolerated_def no_such_table_def fk_cannot_open_parent_def mysql_error_def quoted_def)

lemma create_noop:
  "tbl \<in> set (map fst (db_schema w)) \<Longrightarrow> create_table_if_not_exists tbl cols fks w = (Inr (), w)"
  by (simp add: create_table_if_not_exists_def)

lemma create_ok:
  assumes "create_table_if_not_exists tbl cols fks w = (Inr u, w')"
  shows "tbl \<in> set (map fst (db_schema w'))"
    and "set (map fst (db_schema w)) \<subseteq> set (map fst (db_schema w'))"
    and "faults w' = faults w"
  using assms
  by (auto simp: create_table_if_not_exists_def Let_def split: if_splits list.splits)

lemma map_fst_alter_table [simp]: "map fst (alter_table tbl f sch) = map fst sch"
  by (induction sch) (auto simp: alter_table_def)

lemma map_of_alter_table:
  "map_of (alter_table tbl f sch) tbl = map_option f (map_of sch tbl)"
  by (induction sch) (auto simp: alter_table_def)

lemma fk_names_alter_columns [simp]:
  "fk_names (alter_table tbl (\<lambda>t. t\<lparr>columns := g t\<rparr>) sch) = fk_names sch"
  by (induction sch) (auto simp: alter_table_def fk_names_def)

lemma fk_names_alter_fks:
  "map_of sch tbl = Some t \<Longrightarrow>
   fk_name fk \<in> set (fk_names (alter_table tbl (\<lambda>t. t\<lparr>foreign_keys := foreign_keys t @ [fk]\<rparr>) sch))"
  by (induction sch) (auto simp: alter_table_def fk_names_def split: if_splits)


lemma show_columns_ok:
  "show_columns_like tbl pat w = (Inr cols, w') \<Longrightarrow>
   w' = w \<and> (\<exists>t. map_of (db_schema w) tbl = Some t \<and>
                  cols = filter (\<lambda>(c, d). sql_like pat c) (columns t))"
  by (auto simp: show_columns_like_def split: option.splits)

lemma add_column_ok:
  assumes "alter_add_column tbl col def w = (Inr u, w')"
  shows "map fst (db_schema w') = map fst (db_schema w)"
    and "fk_names (db_schema w') = fk_names (db_schema w)"
    and "faults w' = faults w"
    and "\<exists>t. map_of (db_schema w') tbl = Some t \<and> (col, def) \<in> set (columns t)"
  using assms
  by (auto simp: alter_add_column_def map_of_alter_table split: option.splits if_splits)

lemma add_constraint_ok:
  assumes "alter_add_constraint tbl fk w = (Inr u, w')"
  shows "map fst (db_schema w') = map fst (db_schema w)"
    and "fk_name fk \<in> set (fk_names (db_schema w'))"
    and "faults w' = faults w"
    and "map_option columns (map_of (db_schema w') tbl) = map_option columns (map_of (db_schema w) tbl)"
  using assms
  by (auto simp: alter_add_constraint_def map_of_alter_table fk_names_alter_fks
      split: option.splits if_splits)

lemma add_fk_user_error:
  assumes "alter_add_constraint ''applications'' fk_user w = (Inl err, w')" and "tolerated err"
  shows "w' = w" and "''fk_user'' \<in> set (fk_names (db_schema w))"
  using assms not_tolerated_engine
  by (auto simp: alter_add_constraint_def fk_user_def split: option.splits if_splits)

lemma add_constraint_dup:
  "tbl \<in> set (map fst (db_schema w)) \<Longrightarrow> fk_name fk \<in> set (fk_names (db_schema w)) \<Longrightarrow>
   alter_add_constraint tbl fk w = (Inl (fk_dup_name (fk_name fk)), w)"
  by (auto simp: alter_add_constraint_def map_of_eq_None_iff split: option.splits)

lemma initDb_bootstrapped:
  assumes "bootstrapped (db_schema w)" and "faults w = []"
  shows "initDb w = (Inr (), w)"
proof -
  from assms(1) obtain t where t: "map_of (db_schema w) ''applications'' = Some t"
    and c: "filter (\<lambda>(c, d). sql_like ''user_id'' c) (columns t) \<noteq> []"
    by (auto simp: bootstrapped_def split: option.splits)
  from t have a: "''applications'' \<in> set (map fst (db_schema w))"
    by (metis map_of_eq_None_iff option.distinct(1) set_map)
  from assms(1) have u: "''users'' \<in> set (map fst (db_schema w))"
    and j: "''jobs'' \<in> set (map fst (db_schema w))"
    and f: "fk_name fk_user \<in> set (fk_names (db_schema w))"
    by (simp_all add: bootstrapped_def fk_user_def)
  have s: "show_columns_like ''applications'' ''user_id'' w
             = (Inr (filter (\<lambda>(c, d). sql_like ''user_id'' c) (columns t)), w)"
    using t by (simp add: show_columns_like_def)
  show ?thesis
    using c
    by (simp add: initDb_def ensureColumn_def ensureFk_def pool_query_no_faults[OF assms(2)]
        create_noop[OF u] create_noop[OF j] create_noop[OF a] s
        add_constraint_dup[OF a f] tolerated_fk_dup_name)
qed


lemma sql_like_user_id: "sql_like ''user_id'' ''user_id''"
  by simp

lemma ensureColumn_ok:
  assumes "faults w = []"
    and "ensureColumn ''applications'' ''user_id'' def w = (Inr u, w')"
  shows "faults w' = [] \<and> map fst (db_schema w') = map fst (db_schema w) \<and>
         fk_names (db_schema w') = fk_names (db_schema w) \<and>
         (\<exists>t. map_of (db_schema w') ''applications'' = Some t \<and>
              filter (\<lambda>(c, d). sql_like ''user_id'' c) (columns t) \<noteq> [])"
proof -
  obtain r v where s: "show_columns_like ''applications'' ''user_id'' w = (r, v)" by force
  with assms obtain cols where r: "r = Inr cols"
    by (cases r) (auto simp: ensureColumn_def pool_query_no_faults)
  from show_columns_ok[OF s[unfolded r]] obtain t where v: "v = w"
    and t: "map_of (db_schema w) ''applications'' = Some t"
    and cols: "cols = filter (\<lambda>(c, d). sql_like ''user_id'' c) (columns t)" by auto
  show ?thesis
  proof (cases "cols = []")
    case True
    with assms s r v have a: "alter_add_column ''applications'' ''user_id'' def w = (Inr u, w')"
      by (simp add: ensureColumn_def pool_query_no_faults)
    from add_column_ok(4)[OF a] obtain t' where t': "map_of (db_schema w') ''applications'' = Some t'"
      and m: "(''user_id'', def) \<in> set (columns t')" by auto
    have "sql_like ''user_id'' ''user_id''" by simp
    with m have "filter (\<lambda>(c, d). sql_like ''user_id'' c) (columns t') \<noteq> []"
      unfolding filter_empty_conv by blast
    with t' add_column_ok(1-3)[OF a] assms(1) show ?thesis by simp
  next
    case False
    with assms s r v have "w' = w" by (simp add: ensureColumn_def pool_query_no_faults)
    with assms(1) t cols False show ?thesis by simp
  qed
qed

lemma ensureFk_ok:
  assumes "faults w = []" and "ensureFk ''applications'' fk_user w = (Inr u, w')"
  shows "faults w' = [] \<and> map fst (db_schema w') = map fst (db_schema w) \<and>
         ''fk_user'' \<in> set (fk_names (db_schema w')) \<and>
         map_option columns (map_of (db_schema w') ''applications'')
           = map_option columns (map_of (db_schema w) ''applications'')"
proof -
  obtain r v where a: "alter_add_constraint ''applications'' fk_user w = (r, v)" by force
  show ?thesis
  proof (cases r)
    case (Inl err)
    with assms a have tol: "tolerated err" and w': "w' = v"
      by (auto simp: ensureFk_def pool_query_no_faults split: if_splits)
    from add_fk_user_error[OF a[unfolded Inl] tol] w' assms(1) show ?thesis by simp
  next
    case (Inr x)
    with assms a have w': "w' = v" by (simp add: ensureFk_def pool_query_no_faults)
    from add_constraint_ok[OF a[unfolded Inr]] w' assms(1) show ?thesis
      by (simp add: fk_user_def)
  qed
qed

lemma initDb_first_run:
  assumes "faults w = []" and "initDb w = (Inr (), w1)"
  shows "bootstrapped (db_schema w1)" and "faults w1 = []"
proof -
  obtain r1 v1 where c1: "create_table_if_not_exists ''users'' users_columns [] w = (r1, v1)"
    by force
  obtain r2 v2 where c2: "create_table_if_not_exists ''jobs'' jobs_columns [] v1 = (r2, v2)"
    by force
  obtain r3 v3 where c3: "create_table_if_not_exists ''applications'' applications_columns
                            [fk_job] v2 = (r3, v3)" by force
  obtain r4 v4 where c4: "ensureColumn ''applications'' ''user_id'' ''INT NULL'' v3 = (r4, v4)"
    by force
  from assms c1 have r1: "r1 = Inr ()"
    by (cases r1) (auto simp: initDb_def pool_query_no_faults)
  note k1 = create_ok[OF c1[unfolded r1]]
  from k1 assms have f1: "faults v1 = []" by simp
  from assms c1 r1 c2 f1 have r2: "r2 = Inr ()"
    by (cases r2) (auto simp: initDb_def pool_query_no_faults)
  note k2 = create_ok[OF c2[unfolded r2]]
  from k2 f1 have f2: "faults v2 = []" by simp
  from assms c1 r1 c2 r2 c3 f1 f2 have r3: "r3 = Inr ()"
    by (cases r3) (auto simp: initDb_def pool_query_no_faults)
  note k3 = create_ok[OF c3[unfolded r3]]
  from k3 f2 have f3: "faults v3 = []" by simp
  from assms c1 r1 c2 r2 c3 r3 c4 f1 f2 f3 have r4: "r4 = Inr ()"
    by (cases r4) (auto simp: initDb_def pool_query_no_faults)
  from ensureColumn_ok[OF f3 c4[unfolded r4]]
  have k4: "faults v4 = []" "map fst (db_schema v4) = map fst (db_schema v3)"
    "fk_names (db_schema v4) = fk_names (db_schema v3)"
    "\<exists>t. map_of (db_schema v4) ''applications'' = Some t \<and>
         filter (\<lambda>(c, d). sql_like ''user_id'' c) (columns t) \<noteq> []"
    by simp_all
  from assms c1 r1 c2 r2 c3 r3 c4 r4 f1 f2 f3
  have c5: "ensureFk ''applications'' fk_user v4 = (Inr (), w1)"
    by (simp add: initDb_def pool_query_no_faults)
  from ensureFk_ok[OF k4(1) c5]
  have k5: "faults w1 = []" "map fst (db_schema w1) = map fst (db_schema v4)"
    "''fk_user'' \<in> set (fk_names (db_schema w1))"
    "map_option columns (map_of (db_schema w1) ''applications'')
       = map_option columns (map_of (db_schema v4) ''applications'')"
    by simp_all
  from k5(1) show "faults w1 = []" .
  from k1(1) k2(2) k3(2) k4(2) k5(2) have "''users'' \<in> set (map fst (db_schema w1))" by auto
  moreover from k2(1) k3(2) k4(2) k5(2) have "''jobs'' \<in> set (map fst (db_schema w1))" by auto
  moreover from k4(4) k5(4)
  have "case map_of (db_schema w1) ''applications'' of
          None \<Rightarrow> False
        | Some t \<Rightarrow> filter (\<lambda>(c, d). sql_like ''user_id'' c) (columns t) \<noteq> []"
    by (auto split: option.splits)
  ultimately show "bootstrapped (db_schema w1)" using k5(3) by (simp add: bootstrapped_def)
qed


lemma create_faults:
  "create_table_if_not_exists t c f (w\<lparr>faults := x\<rparr>) =
     (fst (create_table_if_not_exists t c f w),
      (snd (create_table_if_not_exists t c f w))\<lparr>faults := x\<rparr>)"
  by (simp add: create_table_if_not_exists_def Let_def split: list.splits)

lemma show_columns_faults:
  "show_columns_like t p (w\<lparr>faults := x\<rparr>) =
     (fst (show_columns_like t p w), (snd (show_columns_like t p w))\<lparr>faults := x\<rparr>)"
  by (simp add: show_columns_like_def split: option.splits)

lemma add_column_faults:
  "alter_add_column t c d (w\<lparr>faults := x\<rparr>) =
     (fst (alter_add_column t c d w), (snd (alter_add_column t c d w))\<lparr>faults := x\<rparr>)"
  by (simp add: alter_add_column_def split: option.splits)

lemma add_constraint_faults:
  "alter_add_constraint t k (w\<lparr>faults := x\<rparr>) =
     (fst (alter_add_constraint t k w), (snd (alter_add_constraint t k w))\<lparr>faults := x\<rparr>)"
  by (simp add: alter_add_constraint_def split: option.splits)

lemmas stmt_faults = create_faults show_columns_faults add_column_faults add_constraint_faults

lemma pool_query_Cons:
  "faults w = None # fs \<Longrightarrow> pool_query stmt w = stmt (w\<lparr>faults := fs\<rparr>)"
  "faults w = Some err # fs \<Longrightarrow> pool_query stmt w = (Inl err, w\<lparr>faults := fs\<rparr>)"
  by (simp_all add: pool_query_def)

lemma initDb_fatal:
  assumes "k < 5" and "faults w = replicate k None @ Some err # fs" and "\<not> tolerated err"
    and "fst (initDb (w\<lparr>faults := []\<rparr>)) = Inr ()"
  shows "fst (initDb w) = Inl err"
proof -
  from assms(1) consider "k = 0" | "k = 1" | "k = 2" | "k = 3" | "k = 4" by linarith
  then show ?thesis
  proof cases
    case 1
    with assms(2) show ?thesis by (simp add: initDb_def pool_query_Cons)
  next
    case 2
    with assms(2,4) show ?thesis
      by (auto simp: initDb_def pool_query_Cons pool_query_no_faults stmt_faults
          split: sum.splits)
  next
    case 3
    with assms(2,4) show ?thesis
      by (auto simp: initDb_def pool_query_Cons pool_query_no_faults stmt_faults
          numeral_2_eq_2 split: sum.splits)
  next
    case 4
    with assms(2,4) show ?thesis
      by (auto simp: initDb_def ensureColumn_def pool_query_Cons pool_query_no_faults
          stmt_faults numeral_3_eq_3 split: sum.splits)
  next
    case 5
    with assms(2,3,4) show ?thesis
      by (auto simp: initDb_def ensureColumn_def ensureFk_def pool_query_Cons
          pool_query_no_faults stmt_faults eval_nat_numeral split: sum.splits if_splits)
  qed
qed

lemmas bootstrap_defs = initDb_def ensureColumn_def ensureFk_def pool_query_def
  create_table_if_not_exists_def show_columns_like_def alter_add_column_def
  alter_add_constraint_def alter_table_def fk_names_def tolerated_def fk_dup_name_def
  mysql_error_def fk_job_def fk_user_def quoted_def applications_columns_def

section \<open>Application intake: no orphaned upload\<close>

text \<open>
  Claim C1. Whenever the handler of \<^verbatim>\<open>POST /api/jobs/:id/apply\<close> has received a resume
  file and answers with anything but 201 (invalid job id, missing session, job not found,
  deadline passed, missing text field, or an error thrown by the job query or by the
  insert), the received file is not in the upload directory in the state in which the
  answer is sent. For the whole route: when the name under which multer stores the resume
  was free before the call and the call fails, the upload directory is afterwards what it
  was before.
\<close>

theorem apply_failure_removes_upload:
  "(req_file req = Some f \<and> apply_handler now req w = (res, w') \<and> status res \<noteq> 201
      \<longrightarrow> path f \<notin> files w') \<and>
   (apply_route t now (Some orig) req w = (res, w') \<and> status res \<noteq> 201
      \<and> uploadDir @ ''/'' @ storage_filename t orig \<notin> files w
      \<longrightarrow> files w' = files w)"
proof (intro conjI impI)
  assume "req_file req = Some f \<and> apply_handler now req w = (res, w') \<and> status res \<noteq> 201"
  then show "path f \<notin> files w'"
    using apply_handler_failure_files[of req f now w res w'] by simp
next
  let ?p = "uploadDir @ ''/'' @ storage_filename t orig"
  assume a: "apply_route t now (Some orig) req w = (res, w') \<and> status res \<noteq> 201
               \<and> ?p \<notin> files w"
  show "files w' = files w"
  proof (cases "requireAuth req")
    case Next
    obtain req1 w1 where u: "upload_single t (Some orig) req w = (req1, w1)" by force
    then have f1: "req_file req1 =
                     Some \<lparr>originalname = orig, filename = storage_filename t orig, path = ?p\<rparr>"
      and w1: "files w1 = insert ?p (files w)"
      by (auto simp: upload_single_def Let_def)
    from a Next u have "apply_handler now req1 w1 = (res, w')" by (simp add: apply_route_def)
    with f1 a have "files w' = files w1 - {?p}"
      using apply_handler_failure_files[of req1 _ now w1 res w'] by simp
    with w1 a show ?thesis by simp
  next
    case (Responded r)
    with a show ?thesis by (simp add: apply_route_def)
  next
    case (Failed e)
    with a show ?thesis by (simp add: apply_route_def)
  qed
qed

text \<open>
  The theorem at work: Alice's application without the \<^verbatim>\<open>phone\<close> field is answered 400
  and her resume is gone, through the handler and through the whole route; and when the
  insert of her complete application fails on a refused connection, the answer is 500 and
  her resume is gone as well.
\<close>

theorem apply_failure_removes_upload_witness:
  "req_file sample_request = Some sample_upload \<and>
   status (fst (apply_handler 1000
                  (sample_request\<lparr>req_body := (req_body sample_request)(''phone'' := None)\<rparr>)
                  sample_stored)) = 400 \<and>
   path sample_upload \<notin>
     files (snd (apply_handler 1000
                   (sample_request\<lparr>req_body := (req_body sample_request)(''phone'' := None)\<rparr>)
                   sample_stored)) \<and>
   uploadDir @ ''/'' @ storage_filename 900 ''cv.pdf'' \<notin> files sample_world \<and>
   status (fst (apply_route 900 1000 (Some ''cv.pdf'')
                  (sample_request\<lparr>req_body := (req_body sample_request)(''phone'' := None),
                                  req_file := None\<rparr>)
                  sample_world)) = 400 \<and>
   files (snd (apply_route 900 1000 (Some ''cv.pdf'')
                 (sample_request\<lparr>req_body := (req_body sample_request)(''phone'' := None),
                                 req_file := None\<rparr>)
                 sample_world)) = files sample_world \<and>
   status (fst (apply_handler 1000 sample_request
                  (sample_stored\<lparr>faults := [None, Some sample_connection_error]\<rparr>))) = 500 \<and>
   path sample_upload \<notin>
     files (snd (apply_handler 1000 sample_request
                   (sample_stored\<lparr>faults := [None, Some sample_connection_error]\<rparr>)))"
proof -
  let ?down = "sample_stored\<lparr>faults := [None, Some sample_connection_error]\<rparr>"
  let ?d = "apply_handler 1000 sample_request ?down"
  let ?req = "sample_request\<lparr>req_body := (req_body sample_request)(''phone'' := None)\<rparr>"
  let ?raw = "?req\<lparr>req_file := None\<rparr>"
  let ?h = "apply_handler 1000 ?req sample_stored"
  let ?r = "apply_route 900 1000 (Some ''cv.pdf'') ?raw sample_world"
  have f: "req_file ?req = Some sample_upload" "req_file sample_request = Some sample_upload"
    by (simp_all add: sample_defs)
  have s: "status (fst ?h) = 400"
    by (simp add: apply_defs handler_defs sample_defs parseInt_sample Let_def)
  have fresh: "uploadDir @ ''/'' @ storage_filename 900 ''cv.pdf'' \<notin> files sample_world"
    by (simp add: sample_defs)
  have sr: "status (fst ?r) = 400"
    by (simp add: apply_route_def requireAuth_def upload_single_def uploadDir_def
        storage_filename_sample apply_defs handler_defs sample_defs parseInt_sample Let_def)
  from apply_failure_removes_upload
         [of ?req sample_upload 1000 sample_stored "fst ?h" "snd ?h" 900 "''cv.pdf''"]
       f s
  have g1: "path sample_upload \<notin> files (snd ?h)" by simp
  from apply_failure_removes_upload
         [of ?raw sample_upload 1000 sample_world "fst ?r" "snd ?r" 900 "''cv.pdf''"]
       sr fresh
  have g2: "files (snd ?r) = files sample_world" by simp
  have sd: "status (fst ?d) = 500"
    by (simp add: apply_defs handler_defs sample_defs parseInt_sample Let_def)
  from apply_failure_removes_upload
         [of sample_request sample_upload 1000 ?down "fst ?d" "snd ?d" 900 "''cv.pdf''"]
       f sd
  have g3: "path sample_upload \<notin> files (snd ?d)" by simp
  from f s g1 fresh sr g2 sd g3 show ?thesis by simp
qed

section \<open>Application intake: the job identifier\<close>




section \<open>Credential store: registration\<close>




section \<open>Credential store: login\<close>

text \<open>
  Claim C4. Take two failing calls of \<^verbatim>\<open>POST /api/auth/login\<close>, both with an email and
  a password: one whose email no user has, one whose email a user has but whose password
  the hash comparison refuses. The two responses are the same response: status 401 with
  the message \<^verbatim>\<open>Invalid email or password\<close>. And whenever a call is answered 200, the
  body is the message \<^verbatim>\<open>Login successful\<close> and the \<^verbatim>\<open>id\<close>, \<^verbatim>\<open>email\<close>, \<^verbatim>\<open>name\<close> and
  \<^verbatim>\<open>role\<close> of the stored user: it has no \<^verbatim>\<open>password_hash\<close> entry, and its strings are the
  message, the email, the name and the role.
\<close>

theorem login_failures_alike:
  "(req_body r1 ''email'' = Some e1 \<and> e1 \<noteq> [] \<and>
    req_body r1 ''password'' = Some p1 \<and> p1 \<noteq> [] \<and> executes 1 w1 \<and>
    find (\<lambda>u. u_email u = e1) (users w1) = None \<and>
    req_body r2 ''email'' = Some e2 \<and> e2 \<noteq> [] \<and>
    req_body r2 ''password'' = Some p2 \<and> p2 \<noteq> [] \<and> executes 1 w2 \<and>
    find (\<lambda>u. u_email u = e2) (users w2) = Some usr \<and> \<not> cmp p2 (u_password_hash usr)
      \<longrightarrow> fst (login cmp r1 w1) = fst (login cmp r2 w2) \<and>
          fst (login cmp r1 w1) = error_response 401 ''Invalid email or password'') \<and>
   (status (fst (login cmp req w)) = 200
      \<longrightarrow> (\<exists>u. find (\<lambda>u. u_email u = the (req_body req ''email'')) (users w) = Some u \<and>
               body (fst (login cmp req w)) =
                 JObj [(''message'', JStr ''Login successful''),
                       (''user'',
                        JObj [(''id'', JNum (u_id u)), (''email'', JStr (u_email u)),
                              (''name'', JStr (u_name u)), (''role'', JStr (u_role u))])] \<and>
               json_strings (body (fst (login cmp req w))) =
                 [''Login successful'', u_email u, u_name u, u_role u]) \<and>
          ''password_hash'' \<notin> set (json_keys (body (fst (login cmp req w)))))"
proof (intro conjI impI)
  assume a: "req_body r1 ''email'' = Some e1 \<and> e1 \<noteq> [] \<and>
    req_body r1 ''password'' = Some p1 \<and> p1 \<noteq> [] \<and> executes 1 w1 \<and>
    find (\<lambda>u. u_email u = e1) (users w1) = None \<and>
    req_body r2 ''email'' = Some e2 \<and> e2 \<noteq> [] \<and>
    req_body r2 ''password'' = Some p2 \<and> p2 \<noteq> [] \<and> executes 1 w2 \<and>
    find (\<lambda>u. u_email u = e2) (users w2) = Some usr \<and> \<not> cmp p2 (u_password_hash usr)"
  then have e: "executes (Suc 0) w1" "executes (Suc 0) w2" by simp_all
  from a have "filter (\<lambda>u. u_email u = e1) (users w1) = []" by (simp add: find_None_filter)
  with a have l1: "fst (login cmp r1 w1) = error_response 401 ''Invalid email or password''"
    by (simp add: login_def Let_def falsy_def select_users_by_email_executes[OF e(1)])
  from a obtain rest where "filter (\<lambda>u. u_email u = e2) (users w2) = usr # rest"
    using find_filter[of "\<lambda>u. u_email u = e2" "users w2" usr] by auto
  with a have l2: "fst (login cmp r2 w2) = error_response 401 ''Invalid email or password''"
    by (simp add: login_def Let_def falsy_def select_users_by_email_executes[OF e(2)])
  from l1 l2 show "fst (login cmp r1 w1) = fst (login cmp r2 w2)" by simp
  from l1 show "fst (login cmp r1 w1) = error_response 401 ''Invalid email or password''" .
next
  assume s: "status (fst (login cmp req w)) = 200"
  obtain q w1 where q: "pool_query (select_users_by_email (the (req_body req ''email''))) w
                          = (q, w1)" by force
  have rows: "\<And>rows. q = Inr rows \<Longrightarrow>
                rows = filter (\<lambda>u. u_email u = the (req_body req ''email'')) (users w)"
    using q by (auto simp: pool_query_def select_users_by_email_def
        split: list.splits option.splits)
  from s q obtain u rest where u: "q = Inr (u # rest)"
    and b: "body (fst (login cmp req w)) =
              JObj [(''message'', JStr ''Login successful''), (''user'', public_user u)]"
    by (auto simp: login_def Let_def error_response_def error_handler_def
        split: if_splits sum.splits list.splits)
  from rows[OF u] have "find (\<lambda>u. u_email u = the (req_body req ''email'')) (users w) = Some u"
    by (intro filter_find[of _ _ _ rest]) simp
  with b show "\<exists>u. find (\<lambda>u. u_email u = the (req_body req ''email'')) (users w) = Some u \<and>
               body (fst (login cmp req w)) =
                 JObj [(''message'', JStr ''Login successful''),
                       (''user'',
                        JObj [(''id'', JNum (u_id u)), (''email'', JStr (u_email u)),
                              (''name'', JStr (u_name u)), (''role'', JStr (u_role u))])] \<and>
               json_strings (body (fst (login cmp req w))) =
                 [''Login successful'', u_email u, u_name u, u_role u]"
    by (intro exI[of _ u]) (simp add: public_user_def)
  from b show "''password_hash'' \<notin> set (json_keys (body (fst (login cmp req w))))"
    by (simp add: public_user_def)
qed

text \<open>
  The theorem at work: an unknown email and Alice's email with a wrong password get the
  same answer; Alice's login with her password gets her public fields.
\<close>

theorem login_failures_alike_witness:
  "find (\<lambda>u. u_email u = ''nobody@x.com'') (users sample_world) = None \<and>
   find (\<lambda>u. u_email u = ''a@x.com'') (users sample_world) = Some (users sample_world ! 0) \<and>
   \<not> sample_compare ''secret2'' (u_password_hash (users sample_world ! 0)) \<and>
   fst (login sample_compare
          (sample_login_request
             \<lparr>req_body := (req_body sample_login_request)(''email'' \<mapsto> ''nobody@x.com'')\<rparr>)
          sample_world)
     = fst (login sample_compare
              (sample_login_request
                 \<lparr>req_body := (req_body sample_login_request)(''password'' \<mapsto> ''secret2'')\<rparr>)
              sample_world) \<and>
   status (fst (login sample_compare sample_login_request sample_world)) = 200 \<and>
   ''password_hash'' \<notin>
     set (json_keys (body (fst (login sample_compare sample_login_request sample_world))))"
proof -
  let ?unknown = "sample_login_request
                    \<lparr>req_body := (req_body sample_login_request)(''email'' \<mapsto> ''nobody@x.com'')\<rparr>"
  let ?wrong = "sample_login_request
                  \<lparr>req_body := (req_body sample_login_request)(''password'' \<mapsto> ''secret2'')\<rparr>"
  have f: "find (\<lambda>u. u_email u = ''nobody@x.com'') (users sample_world) = None"
    "find (\<lambda>u. u_email u = ''a@x.com'') (users sample_world) = Some (users sample_world ! 0)"
    "\<not> sample_compare ''secret2'' (u_password_hash (users sample_world ! 0))"
    "executes 1 sample_world"
    by (simp_all add: sample_world_def sample_compare_def executes_def)
  have b: "req_body ?unknown ''email'' = Some ''nobody@x.com''"
    "req_body ?unknown ''password'' = Some ''secret1''"
    "req_body ?wrong ''email'' = Some ''a@x.com''"
    "req_body ?wrong ''password'' = Some ''secret2''"
    by (simp_all add: sample_login_request_def)
  have ok: "status (fst (login sample_compare sample_login_request sample_world)) = 200"
    by (simp add: login_def Let_def handler_defs select_users_by_email_def
        sample_login_request_def sample_world_def sample_compare_def)
  note inst = login_failures_alike[of ?unknown "''nobody@x.com''" "''secret1''" sample_world
      ?wrong "''a@x.com''" "''secret2''" sample_world "users sample_world ! 0" sample_compare
      sample_login_request sample_world]
  from inst f b
  have "fst (login sample_compare ?unknown sample_world)
          = fst (login sample_compare ?wrong sample_world)"
    by simp
  moreover from inst ok
  have "''password_hash'' \<notin>
          set (json_keys (body (fst (login sample_compare sample_login_request sample_world))))"
    by simp
  ultimately show ?thesis using f ok by simp
qed

section \<open>Session guard: the admin gate\<close>

text \<open>
  Claim C5. \<^verbatim>\<open>requireAdmin\<close> answers 401 when the session has no user. Otherwise, the
  role query being executed, it looks the user of the session up in the store and answers
  403 when there is no such user or the stored role is not \<^verbatim>\<open>admin\<close>, and lets the
  request pass when the stored role is \<^verbatim>\<open>admin\<close>. The role kept in the session plays no
  part: changing it changes neither the outcome nor the state.
\<close>

theorem requireAdmin_checks_stored_role:
  "(falsy_number (userId (req_session req))
      \<longrightarrow> fst (requireAdmin req w)
            = Responded (error_response 401 ''Authentication required'')) \<and>
   (userId (req_session req) = Some u \<and> u \<noteq> 0 \<and> executes 1 w
      \<longrightarrow> fst (requireAdmin req w) =
            (case find (\<lambda>x. u_id x = u) (users w) of
               None \<Rightarrow> Responded (error_response 403 ''Admin access required'')
             | Some usr \<Rightarrow>
                 if u_role usr = ''admin'' then Next
                 else Responded (error_response 403 ''Admin access required''))) \<and>
   requireAdmin (req\<lparr>req_session := (req_session req)\<lparr>userRole := r\<rparr>\<rparr>) w = requireAdmin req w"
proof (intro conjI impI)
  assume "falsy_number (userId (req_session req))"
  then show "fst (requireAdmin req w)
               = Responded (error_response 401 ''Authentication required'')"
    by (simp add: requireAdmin_def)
next
  assume a: "userId (req_session req) = Some u \<and> u \<noteq> 0 \<and> executes 1 w"
  then have e: "executes (Suc 0) w" by simp
  show "fst (requireAdmin req w) =
            (case find (\<lambda>x. u_id x = u) (users w) of
               None \<Rightarrow> Responded (error_response 403 ''Admin access required'')
             | Some usr \<Rightarrow>
                 if u_role usr = ''admin'' then Next
                 else Responded (error_response 403 ''Admin access required''))"
  proof (cases "find (\<lambda>x. u_id x = u) (users w)")
    case None
    then have "filter (\<lambda>x. u_id x = u) (users w) = []" by (rule find_None_filter)
    with a None show ?thesis
      by (simp add: requireAdmin_def falsy_number_def select_users_by_id_executes[OF e])
  next
    case (Some usr)
    then obtain rest where "filter (\<lambda>x. u_id x = u) (users w) = usr # rest"
      using find_filter[of "\<lambda>x. u_id x = u" "users w" usr] by auto
    with a Some show ?thesis
      by (simp add: requireAdmin_def falsy_number_def select_users_by_id_executes[OF e])
  qed
next
  show "requireAdmin (req\<lparr>req_session := (req_session req)\<lparr>userRole := r\<rparr>\<rparr>) w
          = requireAdmin req w"
    by (simp add: requireAdmin_def)
qed

text \<open>
  The theorem at work: no session, Alice with a session that says \<^verbatim>\<open>admin\<close>, and the
  stored admin.
\<close>

theorem requireAdmin_checks_stored_role_witness:
  "falsy_number (userId (req_session sample_register_request)) \<and>
   fst (requireAdmin sample_register_request sample_world)
     = Responded (error_response 401 ''Authentication required'') \<and>
   userRole (req_session sample_stale_request) = Some ''admin'' \<and>
   fst (requireAdmin sample_stale_request sample_world)
     = Responded (error_response 403 ''Admin access required'') \<and>
   fst (requireAdmin sample_job_request sample_world) = Next"
proof -
  have n: "falsy_number (userId (req_session sample_register_request))"
    by (simp add: sample_register_request_def falsy_number_def)
  have s: "userId (req_session sample_stale_request) = Some 1"
    "userRole (req_session sample_stale_request) = Some ''admin''"
    "userId (req_session sample_job_request) = Some 2" "executes 1 sample_world"
    by (simp_all add: sample_stale_request_def sample_job_request_def sample_world_def
        executes_def)
  have f: "find (\<lambda>x. u_id x = 1) (users sample_world) = Some (users sample_world ! 0)"
    "u_role (users sample_world ! 0) = ''user''"
    "find (\<lambda>x. u_id x = 2) (users sample_world) = Some (users sample_world ! 1)"
    "u_role (users sample_world ! 1) = ''admin''"
    by (simp_all add: sample_world_def)
  from requireAdmin_checks_stored_role[of sample_register_request sample_world] n
  have "fst (requireAdmin sample_register_request sample_world)
          = Responded (error_response 401 ''Authentication required'')"
    by simp
  moreover from requireAdmin_checks_stored_role[of sample_stale_request sample_world 1] s f
  have "fst (requireAdmin sample_stale_request sample_world)
          = Responded (error_response 403 ''Admin access required'')"
    by simp
  moreover from requireAdmin_checks_stored_role[of sample_job_request sample_world 2] s f
  have "fst (requireAdmin sample_job_request sample_world) = Next"
    by simp
  ultimately show ?thesis using n s by simp
qed

section \<open>Schema bootstrap: repeated startup\<close>

text \<open>
  Claim C6. When a run of \<^verbatim>\<open>initDb\<close> in which no statement failed for a reason of its own
  has succeeded, a second such run on the resulting store succeeds and leaves the store,
  and so the schema, exactly as it was. The error of the engine for a foreign key whose
  name is taken is one of the errors that \<^verbatim>\<open>ensureFk\<close> swallows, and any error of that
  enumerated set raised by its statement is treated as success. An error outside the set
  is fatal wherever it strikes: if it is raised by one of the statements of a bootstrap
  that would otherwise succeed, \<^verbatim>\<open>initDb\<close> throws it, and whenever \<^verbatim>\<open>initDb\<close> throws,
  \<^verbatim>\<open>start\<close> ends the process with code 1.
\<close>

theorem initDb_idempotent:
  "(faults w = [] \<and> initDb w = (Inr (), w1) \<longrightarrow> initDb w1 = (Inr (), w1)) \<and>
   tolerated (fk_dup_name n) \<and>
   (tolerated err \<and> faults w = Some err # fs
      \<longrightarrow> ensureFk tbl fk w = (Inr (), w\<lparr>faults := fs\<rparr>)) \<and>
   (k < 5 \<and> faults w = replicate k None @ Some err # fs \<and> \<not> tolerated err \<and>
    fst (initDb (w\<lparr>faults := []\<rparr>)) = Inr ()
      \<longrightarrow> fst (initDb w) = Inl err \<and> fst (start rt h ap t1 t2 w) = Exited 1) \<and>
   (fst (initDb w) = Inl err \<longrightarrow> fst (start rt h ap t1 t2 w) = Exited 1)"
proof (intro conjI impI)
  assume "faults w = [] \<and> initDb w = (Inr (), w1)"
  then have "bootstrapped (db_schema w1)" and "faults w1 = []"
    using initDb_first_run[of w w1] by simp_all
  then show "initDb w1 = (Inr (), w1)" by (rule initDb_bootstrapped)
next
  show "tolerated (fk_dup_name n)" by (rule tolerated_fk_dup_name)
next
  assume "tolerated err \<and> faults w = Some err # fs"
  then show "ensureFk tbl fk w = (Inr (), w\<lparr>faults := fs\<rparr>)"
    by (simp add: ensureFk_def pool_query_Cons)
next
  assume a: "k < 5 \<and> faults w = replicate k None @ Some err # fs \<and> \<not> tolerated err \<and>
    fst (initDb (w\<lparr>faults := []\<rparr>)) = Inr ()"
  then show i: "fst (initDb w) = Inl err"
    using initDb_fatal[of k w err fs] by simp
  then show "fst (start rt h ap t1 t2 w) = Exited 1"
    by (cases "initDb w") (simp add: start_def)
next
  assume "fst (initDb w) = Inl err"
  then show "fst (start rt h ap t1 t2 w) = Exited 1"
    by (cases "initDb w") (simp add: start_def)
qed

text \<open>
  The theorem at work: the bootstrap of an empty database and of a database set up before
  the user reference existed, each followed by a second run; a duplicate-key error at the
  statement of \<^verbatim>\<open>ensureFk\<close>; and a refused connection at the third statement and at
  the fifth, which is the one of \<^verbatim>\<open>ensureFk\<close>.
\<close>

theorem initDb_idempotent_witness:
  "faults sample_world = [] \<and> fst (initDb sample_world) = Inr () \<and>
   map fst (db_schema (snd (initDb sample_world))) = [''users'', ''jobs'', ''applications''] \<and>
   fk_names (db_schema (snd (initDb sample_world))) = [''fk_job'', ''fk_user''] \<and>
   initDb (snd (initDb sample_world)) = (Inr (), snd (initDb sample_world)) \<and>
   fst (initDb (sample_world\<lparr>db_schema := sample_old_schema\<rparr>)) = Inr () \<and>
   initDb (snd (initDb (sample_world\<lparr>db_schema := sample_old_schema\<rparr>)))
     = (Inr (), snd (initDb (sample_world\<lparr>db_schema := sample_old_schema\<rparr>))) \<and>
   tolerated (mysql_error ''ER_DUP_KEYNAME'' ''Duplicate key name'') \<and>
   fst (ensureFk ''applications'' fk_user
          (sample_world\<lparr>faults := [Some (mysql_error ''ER_DUP_KEYNAME'' ''Duplicate key name'')]\<rparr>))
     = Inr () \<and>
   \<not> tolerated sample_connection_error \<and>
   fst (initDb (sample_world\<lparr>faults := [None, None, Some sample_connection_error]\<rparr>))
     = Inl sample_connection_error \<and>
   fst (start sample_runtime sample_hash None 1000 1000
          (sample_world\<lparr>faults := [None, None, Some sample_connection_error]\<rparr>)) = Exited 1 \<and>
   fst (initDb (sample_world
                  \<lparr>faults := [None, None, None, None, Some sample_connection_error]\<rparr>))
     = Inl sample_connection_error"
proof -
  let ?late = "sample_world\<lparr>faults := [None, None, None, None, Some sample_connection_error]\<rparr>"
  let ?old = "sample_world\<lparr>db_schema := sample_old_schema\<rparr>"
  let ?dup = "mysql_error ''ER_DUP_KEYNAME'' ''Duplicate key name''"
  let ?down = "sample_world\<lparr>faults := [None, None, Some sample_connection_error]\<rparr>"
  have f: "faults sample_world = []" "faults ?old = []"
    by (simp_all add: sample_world_def)
  have r: "fst (initDb sample_world) = Inr ()"
    "map fst (db_schema (snd (initDb sample_world))) = [''users'', ''jobs'', ''applications'']"
    "fk_names (db_schema (snd (initDb sample_world))) = [''fk_job'', ''fk_user'']"
    by (simp_all add: bootstrap_defs sample_world_def Let_def)
  have o: "fst (initDb ?old) = Inr ()"
    by (simp add: bootstrap_defs sample_world_def sample_old_schema_def Let_def)
  have t: "tolerated ?dup" "\<not> tolerated sample_connection_error"
    by (simp_all add: tolerated_def mysql_error_def sample_connection_error_def)
  have d: "faults ?down = replicate 2 None @ Some sample_connection_error # []"
    "?down\<lparr>faults := []\<rparr> = sample_world"
    by (simp_all add: sample_world_def numeral_2_eq_2)
  from r(1) have p1: "initDb sample_world = (Inr (), snd (initDb sample_world))"
    by (cases "initDb sample_world") simp
  from o have p2: "initDb ?old = (Inr (), snd (initDb ?old))"
    by (cases "initDb ?old") simp
  from initDb_idempotent[of sample_world "snd (initDb sample_world)"] f p1
  have g1: "initDb (snd (initDb sample_world)) = (Inr (), snd (initDb sample_world))"
    by blast
  from initDb_idempotent[of ?old "snd (initDb ?old)"] f p2
  have g2: "initDb (snd (initDb ?old)) = (Inr (), snd (initDb ?old))"
    by blast
  from initDb_idempotent[of "sample_world\<lparr>faults := [Some ?dup]\<rparr>" _ _ ?dup "[]"
         "''applications''" fk_user] t
  have g3: "fst (ensureFk ''applications'' fk_user (sample_world\<lparr>faults := [Some ?dup]\<rparr>))
              = Inr ()"
    by simp
  from initDb_idempotent[of ?down _ _ sample_connection_error "[]" _ _ 2 sample_runtime
         sample_hash None 1000 1000] t d r(1)
  have g4: "fst (initDb ?down) = Inl sample_connection_error"
    and g5: "fst (start sample_runtime sample_hash None 1000 1000 ?down) = Exited 1"
    by simp_all
  have d4: "faults ?late = replicate 4 None @ Some sample_connection_error # []"
    "?late\<lparr>faults := []\<rparr> = sample_world"
    by (simp_all add: sample_world_def eval_nat_numeral)
  from initDb_idempotent[of ?late _ _ sample_connection_error "[]" _ _ 4] t d4 r(1)
  have g6: "fst (initDb ?late) = Inl sample_connection_error"
    by simp
  from f r g1 o g2 t g3 g4 g5 g6 show ?thesis by simp
qed

section \<open>Application intake: the deadline\<close>

text \<open>
  Claim C7 as stated: with an authenticated session and an existing job whose deadline is
  not in the past, the call succeeds as soon as the four fields and the resume file are
  present. The handler checks nothing else, but the table does: Alice's application to
  the open job 1 with a telephone number of 51 digits passes every check of the handler,
  the insert is refused because \<^verbatim>\<open>phone\<close> is a \<^verbatim>\<open>VARCHAR(50)\<close>, and the answer is 500 with
  no application stored.
\<close>

theorem apply_long_phone_refused:
  "userId (req_session sample_long_phone_request) = Some 1 \<and>
   parseInt (params_id sample_long_phone_request) = Some 1 \<and>
   find (\<lambda>j. j_id j = 1) (jobs sample_stored) = Some (jobs sample_stored ! 0) \<and>
   1000 \<le> j_deadline (jobs sample_stored ! 0) \<and>
   \<not> falsy (req_body sample_long_phone_request ''name'') \<and>
   \<not> falsy (req_body sample_long_phone_request ''email'') \<and>
   \<not> falsy (req_body sample_long_phone_request ''phone'') \<and>
   \<not> falsy (req_body sample_long_phone_request ''coverLetter'') \<and>
   req_file sample_long_phone_request = Some sample_upload \<and>
   faults sample_stored = [] \<and>
   status (fst (apply_handler 1000 sample_long_phone_request sample_stored)) = 500 \<and>
   applications (snd (apply_handler 1000 sample_long_phone_request sample_stored)) = []"
proof -
  have t: "trim (replicate 51 CHR ''5'') = replicate 51 CHR ''5''"
    by (rule trim_no_space) (simp add: js_space_def)
  have ts: "trim ''Alice'' = ''Alice''" "trim ''a@x.com'' = ''a@x.com''"
    "trim ''Dear Acme'' = ''Dear Acme''"
    by (simp_all add: trim_def js_space_def)
  show ?thesis
    by (simp add: parseInt_sample t ts sample_long_phone_request_def apply_defs handler_defs
        sample_defs Let_def)
qed

text \<open>
  Claim C7, amended. Take a call of the handler with an authenticated session and an
  identifier that \<^verbatim>\<open>parseInt\<close> reads as \<open>n\<close>, not zero, for which the store has a job. If
  the deadline of the job is strictly earlier than the current instant, the answer is 400
  (\<^verbatim>\<open>Application deadline has passed\<close>) and the tables are unchanged. If the deadline is
  not earlier (the instant of the deadline itself included), the four text fields are
  present and a resume file came with the request, then: when the row fits the table
  (the trimmed name and email have at most 255 characters, the trimmed phone at most 50,
  the trimmed cover letter fits a \<^verbatim>\<open>TEXT\<close>, the name of the stored file has at most 255
  characters, and the user of the session is in the store), the answer is 201 and the
  table of applications has exactly one more row, which references job \<open>n\<close> and that user
  and holds the trimmed fields and the name of the stored file; when it does not fit,
  the answer is 500, no application is stored and the file is removed. (The statements
  of the call reach the engine.)
\<close>

theorem apply_deadline:
  "(received req w \<and> userId (req_session req) = Some u \<and> u \<noteq> 0 \<and>
    parseInt (params_id req) = Some n \<and> n \<noteq> 0 \<and> executes 1 w \<and>
    find (\<lambda>j. j_id j = n) (jobs w) = Some job \<and> j_deadline job < now
      \<longrightarrow> fst (apply_handler now req w)
            = error_response 400 ''Application deadline has passed'' \<and>
          applications (snd (apply_handler now req w)) = applications w \<and>
          users (snd (apply_handler now req w)) = users w \<and>
          jobs (snd (apply_handler now req w)) = jobs w) \<and>
   (userId (req_session req) = Some u \<and> u \<noteq> 0 \<and>
    parseInt (params_id req) = Some n \<and> n \<noteq> 0 \<and> executes 2 w \<and>
    find (\<lambda>j. j_id j = n) (jobs w) = Some job \<and> now \<le> j_deadline job \<and>
    req_body req ''name'' = Some nm \<and> nm \<noteq> [] \<and>
    req_body req ''email'' = Some em \<and> em \<noteq> [] \<and>
    req_body req ''phone'' = Some ph \<and> ph \<noteq> [] \<and>
    req_body req ''coverLetter'' = Some cl \<and> cl \<noteq> [] \<and>
    req_file req = Some f
      \<longrightarrow> (varchar_fits 255 (trim nm) \<and> varchar_fits 255 (trim em) \<and>
           varchar_fits 50 (trim ph) \<and> text_fits (trim cl) \<and>
           varchar_fits 255 (filename f) \<and> u \<in> set (map u_id (users w))
             \<longrightarrow> status (fst (apply_handler now req w)) = 201 \<and>
                 applications (snd (apply_handler now req w)) =
                   applications w @
                     [\<lparr>a_id = applications_next_id w, a_job_id = n, a_user_id = Some u,
                       a_name = trim nm, a_email = trim em, a_phone = trim ph,
                       a_cover_letter = trim cl, a_resume_path = filename f,
                       a_submitted_at = clock w\<rparr>] \<and>
                 files (snd (apply_handler now req w)) = files w) \<and>
          (\<not> (varchar_fits 255 (trim nm) \<and> varchar_fits 255 (trim em) \<and>
              varchar_fits 50 (trim ph) \<and> text_fits (trim cl) \<and>
              varchar_fits 255 (filename f) \<and> u \<in> set (map u_id (users w)))
             \<longrightarrow> status (fst (apply_handler now req w)) = 500 \<and>
                 applications (snd (apply_handler now req w)) = applications w \<and>
                 path f \<notin> files (snd (apply_handler now req w))))"
proof (intro conjI impI)
  assume a: "received req w \<and> userId (req_session req) = Some u \<and> u \<noteq> 0 \<and>
    parseInt (params_id req) = Some n \<and> n \<noteq> 0 \<and> executes 1 w \<and>
    find (\<lambda>j. j_id j = n) (jobs w) = Some job \<and> j_deadline job < now"
  then have h: "apply_handler now req w =
           (error_response 400 ''Application deadline has passed'',
            snd (unlink_and_reject req 400 ''Application deadline has passed''
                   (w\<lparr>faults := tl (faults w)\<rparr>)))"
    by (intro apply_handler_deadline_passed[of req w u n job now]) simp_all
  from a have r: "received req (w\<lparr>faults := tl (faults w)\<rparr>)" by simp
  show "fst (apply_handler now req w) = error_response 400 ''Application deadline has passed''"
    by (simp add: h)
  show "applications (snd (apply_handler now req w)) = applications w"
    by (simp add: h unlink_and_reject_received(2)[OF r])
  show "users (snd (apply_handler now req w)) = users w"
    by (simp add: h unlink_and_reject_received(3)[OF r])
  show "jobs (snd (apply_handler now req w)) = jobs w"
    by (simp add: h unlink_and_reject_received(4)[OF r])
next
  assume a: "userId (req_session req) = Some u \<and> u \<noteq> 0 \<and>
    parseInt (params_id req) = Some n \<and> n \<noteq> 0 \<and> executes 2 w \<and>
    find (\<lambda>j. j_id j = n) (jobs w) = Some job \<and> now \<le> j_deadline job \<and>
    req_body req ''name'' = Some nm \<and> nm \<noteq> [] \<and>
    req_body req ''email'' = Some em \<and> em \<noteq> [] \<and>
    req_body req ''phone'' = Some ph \<and> ph \<noteq> [] \<and>
    req_body req ''coverLetter'' = Some cl \<and> cl \<noteq> [] \<and>
    req_file req = Some f"
  assume b: "varchar_fits 255 (trim nm) \<and> varchar_fits 255 (trim em) \<and>
    varchar_fits 50 (trim ph) \<and> text_fits (trim cl) \<and>
    varchar_fits 255 (filename f) \<and> u \<in> set (map u_id (users w))"
  from a b have h: "apply_handler now req w =
           (\<lparr>status = 201,
             body = JObj [(''message'', JStr ''Application submitted successfully'')]\<rparr>,
            w\<lparr>faults := tl (tl (faults w)),
              applications := applications w @
                [\<lparr>a_id = applications_next_id w, a_job_id = n, a_user_id = Some u,
                  a_name = trim nm, a_email = trim em, a_phone = trim ph,
                  a_cover_letter = trim cl, a_resume_path = filename f,
                  a_submitted_at = clock w\<rparr>],
              applications_next_id := applications_next_id w + 1\<rparr>)"
    by (intro apply_handler_success[of req u n w job now nm em ph cl f]) simp_all
  show "status (fst (apply_handler now req w)) = 201" by (simp add: h)
  show "applications (snd (apply_handler now req w)) =
          applications w @
            [\<lparr>a_id = applications_next_id w, a_job_id = n, a_user_id = Some u,
              a_name = trim nm, a_email = trim em, a_phone = trim ph,
              a_cover_letter = trim cl, a_resume_path = filename f,
              a_submitted_at = clock w\<rparr>]"
    by (simp add: h)
  show "files (snd (apply_handler now req w)) = files w" by (simp add: h)
next
  assume a: "userId (req_session req) = Some u \<and> u \<noteq> 0 \<and>
    parseInt (params_id req) = Some n \<and> n \<noteq> 0 \<and> executes 2 w \<and>
    find (\<lambda>j. j_id j = n) (jobs w) = Some job \<and> now \<le> j_deadline job \<and>
    req_body req ''name'' = Some nm \<and> nm \<noteq> [] \<and>
    req_body req ''email'' = Some em \<and> em \<noteq> [] \<and>
    req_body req ''phone'' = Some ph \<and> ph \<noteq> [] \<and>
    req_body req ''coverLetter'' = Some cl \<and> cl \<noteq> [] \<and>
    req_file req = Some f"
  assume b: "\<not> (varchar_fits 255 (trim nm) \<and> varchar_fits 255 (trim em) \<and>
    varchar_fits 50 (trim ph) \<and> text_fits (trim cl) \<and>
    varchar_fits 255 (filename f) \<and> u \<in> set (map u_id (users w)))"
  from a have l: "\<not> j_deadline job < now" by simp
  note r = apply_handler_refused[of req u n w job now nm em ph cl f, OF _ _ _ _ _ _ l _ _ _ _ _ _ _ _ _ b]
  from a show "status (fst (apply_handler now req w)) = 500" by (intro r(1)) simp_all
  from a show "applications (snd (apply_handler now req w)) = applications w"
    by (intro r(2)) simp_all
  from a have "files (snd (apply_handler now req w)) = files w - {path f}"
    by (intro r(3)) simp_all
  then show "path f \<notin> files (snd (apply_handler now req w))" by simp
qed

text \<open>
  The theorem at work: the closed job 2 at instant 1000; the open job 1 at the very
  instant 2000 of its deadline; and the telephone number of 51 digits.
\<close>

theorem apply_deadline_witness:
  "find (\<lambda>j. j_id j = 2) (jobs sample_stored) = Some (jobs sample_stored ! 1) \<and>
   j_deadline (jobs sample_stored ! 1) < 1000 \<and>
   fst (apply_handler 1000 (sample_request\<lparr>params_id := ''2''\<rparr>) sample_stored)
     = error_response 400 ''Application deadline has passed'' \<and>
   applications (snd (apply_handler 1000 (sample_request\<lparr>params_id := ''2''\<rparr>) sample_stored))
     = [] \<and>
   find (\<lambda>j. j_id j = 1) (jobs sample_stored) = Some (jobs sample_stored ! 0) \<and>
   2000 \<le> j_deadline (jobs sample_stored ! 0) \<and>
   varchar_fits 50 (trim ''555 0100'') \<and> 1 \<in> set (map u_id (users sample_stored)) \<and>
   status (fst (apply_handler 2000 sample_request sample_stored)) = 201 \<and>
   length (applications (snd (apply_handler 2000 sample_request sample_stored))) = 1 \<and>
   \<not> varchar_fits 50 (trim (replicate 51 CHR ''5'')) \<and>
   status (fst (apply_handler 2000 sample_long_phone_request sample_stored)) = 500 \<and>
   path sample_upload \<notin>
     files (snd (apply_handler 2000 sample_long_phone_request sample_stored))"
proof -
  let ?late = "sample_request\<lparr>params_id := ''2''\<rparr>"
  let ?long = "sample_long_phone_request"
  let ?j1 = "jobs sample_stored ! 0" and ?j2 = "jobs sample_stored ! 1"
  have p: "parseInt (params_id ?late) = Some 2" "parseInt (params_id sample_request) = Some 1"
    "parseInt (params_id ?long) = Some 1"
    by (simp_all add: parse_defs sample_defs sample_long_phone_request_def)
  have j: "find (\<lambda>j. j_id j = 2) (jobs sample_stored) = Some ?j2" "j_deadline ?j2 < 1000"
    "find (\<lambda>j. j_id j = 1) (jobs sample_stored) = Some ?j1" "2000 \<le> j_deadline ?j1"
    by (simp_all add: sample_defs)
  have s: "received ?late sample_stored" "userId (req_session ?late) = Some 1"
    "userId (req_session sample_request) = Some 1" "userId (req_session ?long) = Some 1"
    "executes 1 sample_stored" "executes 2 sample_stored" "applications sample_stored = []"
    "1 \<in> set (map u_id (users sample_stored))"
    by (simp_all add: received_def executes_def sample_defs sample_long_phone_request_def)
  have b: "req_body sample_request ''name'' = Some ''Alice''"
    "req_body sample_request ''email'' = Some ''a@x.com''"
    "req_body sample_request ''phone'' = Some ''555 0100''"
    "req_body sample_request ''coverLetter'' = Some ''Dear Acme''"
    "req_file sample_request = Some sample_upload"
    by (simp_all add: sample_defs)
  have c: "req_body ?long ''name'' = Some ''Alice''"
    "req_body ?long ''email'' = Some ''a@x.com''"
    "req_body ?long ''phone'' = Some (replicate 51 CHR ''5'')"
    "req_body ?long ''coverLetter'' = Some ''Dear Acme''"
    "req_file ?long = Some sample_upload" "replicate 51 CHR ''5'' \<noteq> []"
    by (simp_all add: sample_defs sample_long_phone_request_def)
  have fit: "varchar_fits 255 (trim ''Alice'')" "varchar_fits 255 (trim ''a@x.com'')"
    "varchar_fits 50 (trim ''555 0100'')" "text_fits (trim ''Dear Acme'')"
    "varchar_fits 255 (filename sample_upload)"
    by (simp_all add: engine_defs trim_def js_space_def sample_upload_def)
  have t: "trim (replicate 51 CHR ''5'') = replicate 51 CHR ''5''"
    by (rule trim_no_space) (simp add: js_space_def)
  have long: "\<not> varchar_fits 50 (trim (replicate 51 CHR ''5''))"
    by (simp add: t varchar_fits_def)
  from apply_deadline[of ?late sample_stored 1 2 ?j2 1000] s j p
  have "fst (apply_handler 1000 ?late sample_stored)
          = error_response 400 ''Application deadline has passed''"
    and "applications (snd (apply_handler 1000 ?late sample_stored)) = []"
    by simp_all
  moreover
  from apply_deadline[of sample_request sample_stored 1 1 ?j1 2000 "''Alice''" "''a@x.com''"
         "''555 0100''" "''Dear Acme''" sample_upload] s j p b fit
  have "status (fst (apply_handler 2000 sample_request sample_stored)) = 201"
    and "length (applications (snd (apply_handler 2000 sample_request sample_stored))) = 1"
    by simp_all
  moreover
  from apply_deadline[of ?long sample_stored 1 1 ?j1 2000 "''Alice''" "''a@x.com''"
         "replicate 51 CHR ''5''" "''Dear Acme''" sample_upload] s j p c long
  have "status (fst (apply_handler 2000 ?long sample_stored)) = 500"
    and "path sample_upload \<notin> files (snd (apply_handler 2000 ?long sample_stored))"
    by simp_all
  ultimately show ?thesis using j fit s long by simp
qed

section \<open>Credential store: the current user\<close>

text \<open>
  Claim C8. \<^verbatim>\<open>GET /api/auth/me\<close> answers 401 when the session has no user. When the
  session names a user that the store no longer has, it destroys the session and answers
  401. Otherwise it answers 200 with the \<^verbatim>\<open>id\<close>, \<^verbatim>\<open>email\<close>, \<^verbatim>\<open>name\<close> and \<^verbatim>\<open>role\<close> of the
  stored user and nothing else, so without the password hash, and keeps the session. The
  user query is executed by the engine.
\<close>

theorem me_outcomes:
  "(falsy_number (userId (req_session req))
      \<longrightarrow> fst (me req w) = error_response 401 ''Not authenticated'' \<and>
          fst (snd (me req w)) = Some (req_session req)) \<and>
   (userId (req_session req) = Some u \<and> u \<noteq> 0 \<and> executes 1 w \<and>
    find (\<lambda>x. u_id x = u) (users w) = None
      \<longrightarrow> fst (me req w) = error_response 401 ''User not found'' \<and>
          fst (snd (me req w)) = None) \<and>
   (userId (req_session req) = Some u \<and> u \<noteq> 0 \<and> executes 1 w \<and>
    find (\<lambda>x. u_id x = u) (users w) = Some usr
      \<longrightarrow> fst (me req w) =
            \<lparr>status = 200,
             body = JObj [(''user'',
                           JObj [(''id'', JNum (u_id usr)), (''email'', JStr (u_email usr)),
                                 (''name'', JStr (u_name usr)),
                                 (''role'', JStr (u_role usr))])]\<rparr> \<and>
          json_keys (body (fst (me req w))) = [''user'', ''id'', ''email'', ''name'', ''role''] \<and>
          fst (snd (me req w)) = Some (req_session req))"
proof (intro conjI impI)
  assume "falsy_number (userId (req_session req))"
  then show "fst (me req w) = error_response 401 ''Not authenticated''"
    and "fst (snd (me req w)) = Some (req_session req)"
    by (simp_all add: me_def)
next
  assume a: "userId (req_session req) = Some u \<and> u \<noteq> 0 \<and> executes 1 w \<and>
    find (\<lambda>x. u_id x = u) (users w) = None"
  then have e: "executes (Suc 0) w" by simp
  from a have "filter (\<lambda>x. u_id x = u) (users w) = []" by (simp add: find_None_filter)
  with a show "fst (me req w) = error_response 401 ''User not found''"
    and "fst (snd (me req w)) = None"
    by (simp_all add: me_def falsy_number_def select_users_by_id_executes[OF e])
next
  assume a: "userId (req_session req) = Some u \<and> u \<noteq> 0 \<and> executes 1 w \<and>
    find (\<lambda>x. u_id x = u) (users w) = Some usr"
  then have e: "executes (Suc 0) w" by simp
  from a obtain rest where "filter (\<lambda>x. u_id x = u) (users w) = usr # rest"
    using find_filter[of "\<lambda>x. u_id x = u" "users w" usr] by auto
  with a have m: "me req w =
                    (\<lparr>status = 200, body = JObj [(''user'', public_user usr)]\<rparr>,
                     Some (req_session req), w\<lparr>faults := tl (faults w)\<rparr>)"
    by (simp add: me_def falsy_number_def select_users_by_id_executes[OF e])
  show "fst (me req w) =
            \<lparr>status = 200,
             body = JObj [(''user'',
                           JObj [(''id'', JNum (u_id usr)), (''email'', JStr (u_email usr)),
                                 (''name'', JStr (u_name usr)),
                                 (''role'', JStr (u_role usr))])]\<rparr>"
    and "json_keys (body (fst (me req w))) = [''user'', ''id'', ''email'', ''name'', ''role'']"
    and "fst (snd (me req w)) = Some (req_session req)"
    by (simp_all add: m public_user_def)
qed

text \<open>
  The theorem at work: no session, a session for a user 7 that the store does not have,
  and Alice's session.
\<close>

theorem me_outcomes_witness:
  "falsy_number (userId (req_session sample_register_request)) \<and>
   fst (me sample_register_request sample_world) = error_response 401 ''Not authenticated'' \<and>
   find (\<lambda>x. u_id x = 7) (users sample_world) = None \<and>
   fst (me (sample_request\<lparr>req_session := \<lparr>userId = Some 7, userRole = Some ''user''\<rparr>\<rparr>)
          sample_world) = error_response 401 ''User not found'' \<and>
   fst (snd (me (sample_request\<lparr>req_session := \<lparr>userId = Some 7, userRole = Some ''user''\<rparr>\<rparr>)
               sample_world)) = None \<and>
   find (\<lambda>x. u_id x = 1) (users sample_world) = Some (users sample_world ! 0) \<and>
   status (fst (me sample_request sample_world)) = 200 \<and>
   json_keys (body (fst (me sample_request sample_world)))
     = [''user'', ''id'', ''email'', ''name'', ''role'']"
proof -
  let ?gone = "sample_request\<lparr>req_session := \<lparr>userId = Some 7, userRole = Some ''user''\<rparr>\<rparr>"
  have n: "falsy_number (userId (req_session sample_register_request))"
    by (simp add: sample_register_request_def falsy_number_def)
  have s: "userId (req_session ?gone) = Some 7" "userId (req_session sample_request) = Some 1"
    "executes 1 sample_world"
    "find (\<lambda>x. u_id x = 7) (users sample_world) = None"
    "find (\<lambda>x. u_id x = 1) (users sample_world) = Some (users sample_world ! 0)"
    by (simp_all add: sample_request_def sample_world_def executes_def)
  from me_outcomes[of sample_register_request sample_world] n
  have "fst (me sample_register_request sample_world)
          = error_response 401 ''Not authenticated''"
    by simp
  moreover from me_outcomes[of ?gone sample_world 7] s
  have "fst (me ?gone sample_world) = error_response 401 ''User not found''"
    and "fst (snd (me ?gone sample_world)) = None"
    by simp_all
  moreover from me_outcomes[of sample_request sample_world 1 "users sample_world ! 0"] s
  have "status (fst (me sample_request sample_world)) = 200"
    and "json_keys (body (fst (me sample_request sample_world)))
           = [''user'', ''id'', ''email'', ''name'', ''role'']"
    by simp_all
  ultimately show ?thesis using n s by simp
qed

section \<open>Names of stored resumes\<close>

text \<open>
  Claim C9 as stated: the stored name is the time stamp followed by the original name
  with its white space stripped. The code does not strip white space, it puts a hyphen in
  its place: \<^verbatim>\<open>my resume.pdf\<close> received at instant 1700000000000 is stored as
  \<^verbatim>\<open>1700000000000-my-resume.pdf\<close>, not as \<^verbatim>\<open>1700000000000-myresume.pdf\<close>.
\<close>

theorem storage_filename_not_stripped:
  "storage_filename 1700000000000 ''my resume.pdf'' = ''1700000000000-my-resume.pdf'' \<and>
   spec_storage_filename 1700000000000 ''my resume.pdf'' = ''1700000000000-myresume.pdf'' \<and>
   storage_filename 1700000000000 ''my resume.pdf''
     \<noteq> spec_storage_filename 1700000000000 ''my resume.pdf''"
  by (simp add: storage_filename_def spec_storage_filename_def strip_spaces_def number_defs
      js_space_def)

text \<open>
  Claim C9, amended. The stored name is the decimal time stamp, a hyphen, and the original
  name in which every maximal run of white space is replaced by one hyphen. It contains no
  white space at all. A name without white space is kept as it is; a run \<open>ws\<close> of white
  space between a part \<open>a\<close> that does not end in white space and a part \<open>b\<close> that does
  not begin with it becomes a single hyphen between what \<open>a\<close> and \<open>b\<close> become.
\<close>

theorem storage_filename_hyphenates:
  "storage_filename now orig = number_to_string now @ ''-'' @ replace_spaces orig \<and>
   filter js_space (storage_filename now orig) = [] \<and>
   (filter js_space orig = [] \<longrightarrow> replace_spaces orig = orig) \<and>
   ((a = [] \<or> \<not> js_space (last a)) \<and> ws \<noteq> [] \<and> filter js_space ws = ws \<and>
    (b = [] \<or> \<not> js_space (hd b))
      \<longrightarrow> replace_spaces (a @ ws @ b) = replace_spaces a @ ''-'' @ replace_spaces b)"
proof (intro conjI impI)
  show "storage_filename now orig = number_to_string now @ ''-'' @ replace_spaces orig"
    by (simp add: storage_filename_def)
  show "filter js_space (storage_filename now orig) = []"
    by (simp add: storage_filename_def number_to_string_no_space replace_spaces_no_space
        js_space_def)
next
  assume "filter js_space orig = []"
  then show "replace_spaces orig = orig" by (rule replace_spaces_id)
next
  assume h: "(a = [] \<or> \<not> js_space (last a)) \<and> ws \<noteq> [] \<and> filter js_space ws = ws \<and>
             (b = [] \<or> \<not> js_space (hd b))"
  then have "replace_spaces (a @ ws @ b) = replace_spaces a @ replace_spaces (ws @ b)"
    by (simp add: replace_spaces_append)
  also from h have "replace_spaces (ws @ b) = CHR ''-'' # replace_spaces b"
    by (simp add: replace_spaces_run)
  finally show "replace_spaces (a @ ws @ b) = replace_spaces a @ ''-'' @ replace_spaces b"
    by simp
qed

text \<open>
  The theorem at work on \<^verbatim>\<open>my  resume.pdf\<close> (two spaces) and on \<^verbatim>\<open>cv.pdf\<close>.
\<close>

theorem storage_filename_hyphenates_witness:
  "filter js_space ''cv.pdf'' = [] \<and> replace_spaces ''cv.pdf'' = ''cv.pdf'' \<and>
   \<not> js_space (last ''my'') \<and> filter js_space ''  '' = ''  '' \<and>
   \<not> js_space (hd ''resume.pdf'') \<and>
   replace_spaces (''my'' @ ''  '' @ ''resume.pdf'')
     = replace_spaces ''my'' @ ''-'' @ replace_spaces ''resume.pdf'' \<and>
   filter js_space (storage_filename 900 ''my  resume.pdf'') = []"
proof -
  have h1: "filter js_space ''cv.pdf'' = []" by (simp add: js_space_def)
  have h2: "(''my'' = [] \<or> \<not> js_space (last ''my'')) \<and> ''  '' \<noteq> [] \<and>
            filter js_space ''  '' = ''  '' \<and>
            (''resume.pdf'' = [] \<or> \<not> js_space (hd ''resume.pdf''))"
    by (simp add: js_space_def)
  note inst = storage_filename_hyphenates[of 900 "''cv.pdf''" "''my''" "''  ''" "''resume.pdf''"]
  from inst h1 have "replace_spaces ''cv.pdf'' = ''cv.pdf''" by blast
  moreover from inst h2
  have "replace_spaces (''my'' @ ''  '' @ ''resume.pdf'')
          = replace_spaces ''my'' @ ''-'' @ replace_spaces ''resume.pdf''"
    by blast
  moreover from storage_filename_hyphenates[of 900 "''my  resume.pdf''" "[]" "'' ''" "[]"]
  have "filter js_space (storage_filename 900 ''my  resume.pdf'') = []" by blast
  ultimately show ?thesis using h1 h2 by simp
qed

section \<open>Application intake: blank fields\<close>

text \<open>
  Claim C10. The handler of the application route accepts text fields that consist of
  white space only: such a value is not empty, so it passes the check for missing fields,
  and it is trimmed to the empty string when the row is written. With an authenticated
  session, an existing job whose deadline has not passed, a resume file and the
  statements reaching the engine, the four empty strings are what the insert is given:
  when the name of the stored file fits its column and the user of the session is in the
  store, the answer is 201 and the new row has four empty text fields; otherwise the
  insert is refused for the file name or the user, the answer is 500 and no row is
  stored. The handler that creates a job does reject such a value: with four fields
  present, a blank title, company or description is answered 400
  (\<^verbatim>\<open>Fields cannot be empty\<close>) and nothing is stored.
\<close>

theorem apply_accepts_blank_fields:
  "(userId (req_session req) = Some u \<and> u \<noteq> 0 \<and>
    parseInt (params_id req) = Some n \<and> n \<noteq> 0 \<and> executes 2 w \<and>
    find (\<lambda>j. j_id j = n) (jobs w) = Some job \<and> now \<le> j_deadline job \<and>
    req_body req ''name'' = Some nm \<and> blank nm \<and>
    req_body req ''email'' = Some em \<and> blank em \<and>
    req_body req ''phone'' = Some ph \<and> blank ph \<and>
    req_body req ''coverLetter'' = Some cl \<and> blank cl \<and>
    req_file req = Some f
      \<longrightarrow> \<not> (falsy (req_body req ''name'') \<or> falsy (req_body req ''email'') \<or>
             falsy (req_body req ''phone'') \<or> falsy (req_body req ''coverLetter'')) \<and>
          (varchar_fits 255 (filename f) \<and> u \<in> set (map u_id (users w))
             \<longrightarrow> status (fst (apply_handler now req w)) = 201 \<and>
                 applications (snd (apply_handler now req w)) =
                   applications w @
                     [\<lparr>a_id = applications_next_id w, a_job_id = n, a_user_id = Some u,
                       a_name = [], a_email = [], a_phone = [], a_cover_letter = [],
                       a_resume_path = filename f, a_submitted_at = clock w\<rparr>]) \<and>
          (\<not> (varchar_fits 255 (filename f) \<and> u \<in> set (map u_id (users w)))
             \<longrightarrow> status (fst (apply_handler now req w)) = 500 \<and>
                 applications (snd (apply_handler now req w)) = applications w)) \<and>
   (req_body rq ''title'' = Some ti \<and> req_body rq ''company'' = Some co \<and>
    req_body rq ''description'' = Some de \<and> req_body rq ''deadline'' = Some dl \<and>
    ti \<noteq> [] \<and> co \<noteq> [] \<and> de \<noteq> [] \<and> dl \<noteq> [] \<and> (blank ti \<or> blank co \<or> blank de)
      \<longrightarrow> create_job rt rq v = (error_response 400 ''Fields cannot be empty'', v))"
proof (intro conjI impI)
  assume a: "userId (req_session req) = Some u \<and> u \<noteq> 0 \<and>
    parseInt (params_id req) = Some n \<and> n \<noteq> 0 \<and> executes 2 w \<and>
    find (\<lambda>j. j_id j = n) (jobs w) = Some job \<and> now \<le> j_deadline job \<and>
    req_body req ''name'' = Some nm \<and> blank nm \<and>
    req_body req ''email'' = Some em \<and> blank em \<and>
    req_body req ''phone'' = Some ph \<and> blank ph \<and>
    req_body req ''coverLetter'' = Some cl \<and> blank cl \<and>
    req_file req = Some f"
  then show "\<not> (falsy (req_body req ''name'') \<or> falsy (req_body req ''email'') \<or>
             falsy (req_body req ''phone'') \<or> falsy (req_body req ''coverLetter''))"
    by (simp add: falsy_def blank_def)
  from a have t: "trim nm = []" "trim em = []" "trim ph = []" "trim cl = []"
    by (simp_all add: blank_def trim_blank)
  {
    assume b: "varchar_fits 255 (filename f) \<and> u \<in> set (map u_id (users w))"
    from a b have h: "apply_handler now req w =
           (\<lparr>status = 201,
             body = JObj [(''message'', JStr ''Application submitted successfully'')]\<rparr>,
            w\<lparr>faults := tl (tl (faults w)),
              applications := applications w @
                [\<lparr>a_id = applications_next_id w, a_job_id = n, a_user_id = Some u,
                  a_name = trim nm, a_email = trim em, a_phone = trim ph,
                  a_cover_letter = trim cl, a_resume_path = filename f,
                  a_submitted_at = clock w\<rparr>],
              applications_next_id := applications_next_id w + 1\<rparr>)"
      by (intro apply_handler_success[of req u n w job now nm em ph cl f])
         (simp_all add: blank_def trim_blank engine_defs)
    show "status (fst (apply_handler now req w)) = 201" by (simp add: h)
    show "applications (snd (apply_handler now req w)) =
            applications w @
              [\<lparr>a_id = applications_next_id w, a_job_id = n, a_user_id = Some u,
                a_name = [], a_email = [], a_phone = [], a_cover_letter = [],
                a_resume_path = filename f, a_submitted_at = clock w\<rparr>]"
      by (simp add: h t)
  }
  {
    assume "\<not> (varchar_fits 255 (filename f) \<and> u \<in> set (map u_id (users w)))"
    then have b: "\<not> (varchar_fits 255 (trim nm) \<and> varchar_fits 255 (trim em) \<and>
        varchar_fits 50 (trim ph) \<and> text_fits (trim cl) \<and>
        varchar_fits 255 (filename f) \<and> u \<in> set (map u_id (users w)))"
      by blast
    from a have l: "\<not> j_deadline job < now" by simp
    note r = apply_handler_refused[of req u n w job now nm em ph cl f,
        OF _ _ _ _ _ _ l _ _ _ _ _ _ _ _ _ b]
    from a show "status (fst (apply_handler now req w)) = 500"
      by (intro r(1)) (simp_all add: blank_def)
    from a show "applications (snd (apply_handler now req w)) = applications w"
      by (intro r(2)) (simp_all add: blank_def)
  }
next
  assume a: "req_body rq ''title'' = Some ti \<and> req_body rq ''company'' = Some co \<and>
    req_body rq ''description'' = Some de \<and> req_body rq ''deadline'' = Some dl \<and>
    ti \<noteq> [] \<and> co \<noteq> [] \<and> de \<noteq> [] \<and> dl \<noteq> [] \<and> (blank ti \<or> blank co \<or> blank de)"
  then have "trim ti = [] \<or> trim co = [] \<or> trim de = []"
    by (auto simp: blank_def trim_blank)
  with a show "create_job rt rq v = (error_response 400 ''Fields cannot be empty'', v)"
    by (simp add: create_job_def Let_def falsy_def)
qed

text \<open>
  The theorem at work: Alice's application with four blank fields is stored, the same
  application under a session whose user 7 is not in the store is refused by the engine,
  and the job with a blank title is refused by the handler.
\<close>

theorem apply_accepts_blank_fields_witness:
  "blank ''  '' \<and> blank '' '' \<and> blank ''   '' \<and>
   status (fst (apply_handler 1000 sample_blank_request sample_stored)) = 201 \<and>
   map a_name (applications (snd (apply_handler 1000 sample_blank_request sample_stored)))
     = [[]] \<and>
   map a_cover_letter
     (applications (snd (apply_handler 1000 sample_blank_request sample_stored))) = [[]] \<and>
   7 \<notin> set (map u_id (users sample_stored)) \<and>
   status (fst (apply_handler 1000
     (sample_blank_request\<lparr>req_session := \<lparr>userId = Some 7, userRole = None\<rparr>\<rparr>)
     sample_stored)) = 500 \<and>
   create_job sample_runtime sample_job_request sample_world
     = (error_response 400 ''Fields cannot be empty'', sample_world)"
proof -
  let ?gone = "sample_blank_request\<lparr>req_session := \<lparr>userId = Some 7, userRole = None\<rparr>\<rparr>"
  have bl: "blank ''  ''" "blank '' ''" "blank ''   ''"
    by (simp_all add: blank_def js_space_def)
  have p: "parseInt (params_id sample_blank_request) = Some 1"
    by (simp add: parse_defs sample_defs sample_blank_request_def)
  have s: "userId (req_session sample_blank_request) = Some 1" "executes 2 sample_stored"
    "find (\<lambda>j. j_id j = 1) (jobs sample_stored) = Some (jobs sample_stored ! 0)"
    "1000 \<le> j_deadline (jobs sample_stored ! 0)" "applications sample_stored = []"
    "req_body sample_blank_request ''name'' = Some ''  ''"
    "req_body sample_blank_request ''email'' = Some '' ''"
    "req_body sample_blank_request ''phone'' = Some ''   ''"
    "req_body sample_blank_request ''coverLetter'' = Some '' ''"
    "req_file sample_blank_request = Some sample_upload"
    "varchar_fits 255 (filename sample_upload)" "1 \<in> set (map u_id (users sample_stored))"
    by (simp_all add: executes_def sample_defs sample_blank_request_def engine_defs)
  have c: "req_body sample_job_request ''title'' = Some ''   ''"
    "req_body sample_job_request ''company'' = Some ''Acme''"
    "req_body sample_job_request ''description'' = Some ''desc''"
    "req_body sample_job_request ''deadline'' = Some ''2030-01-01''"
    by (simp_all add: sample_job_request_def)
  note inst = apply_accepts_blank_fields[of sample_blank_request 1 1 sample_stored
      "jobs sample_stored ! 0" 1000 "''  ''" "'' ''" "''   ''" "'' ''" sample_upload
      sample_job_request "''   ''" "''Acme''" "''desc''" "''2030-01-01''"
      sample_runtime sample_world]
  from inst p s bl
  have "status (fst (apply_handler 1000 sample_blank_request sample_stored)) = 201"
    and "applications (snd (apply_handler 1000 sample_blank_request sample_stored)) =
           [\<lparr>a_id = applications_next_id sample_stored, a_job_id = 1, a_user_id = Some 1,
             a_name = [], a_email = [], a_phone = [], a_cover_letter = [],
             a_resume_path = filename sample_upload, a_submitted_at = clock sample_stored\<rparr>]"
    by simp_all
  moreover
  have g: "userId (req_session ?gone) = Some 7" "parseInt (params_id ?gone) = Some 1"
    "req_body ?gone = req_body sample_blank_request"
    "req_file ?gone = req_file sample_blank_request"
    "7 \<notin> set (map u_id (users sample_stored))"
    by (simp_all add: p) (simp add: sample_defs)
  from apply_accepts_blank_fields[of ?gone 7 1 sample_stored
      "jobs sample_stored ! 0" 1000 "''  ''" "'' ''" "''   ''" "'' ''" sample_upload] g s bl
  have "status (fst (apply_handler 1000 ?gone sample_stored)) = 500"
    by simp
  moreover from inst c bl
  have "create_job sample_runtime sample_job_request sample_world
          = (error_response 400 ''Fields cannot be empty'', sample_world)"
    by simp
  ultimately show ?thesis using bl g(5) by simp
qed

end
